theory Spec2Isabelle
  imports Complex_Main "HOL-Library.List_Lexorder" "HOL-Library.Char_ord"
begin

section \<open>Strings as the program sees them\<close>

text \<open>
  A JavaScript string is a sequence of code units. The model uses \<^typ>\<open>string\<close>; a
  \<^typ>\<open>char\<close> is read as a code unit below 256, so the white space of
  \<^verbatim>\<open>String.prototype.trim\<close> and of the regular expression class \<^verbatim>\<open>\s\<close> is
  TAB, LF, VT, FF, CR, SPACE and NBSP, and the line terminators that \<^verbatim>\<open>.\<close> refuses
  are LF and CR.
\<close>

definition isSpace :: "char \<Rightarrow> bool" where
  "isSpace c = (of_char c \<in> {9, 10, 11, 12, 13, 32, 160 :: nat})"

definition isLineTerminator :: "char \<Rightarrow> bool" where
  "isLineTerminator c = (of_char c \<in> {10, 13 :: nat})"

definition trim :: "string \<Rightarrow> string" where
  "trim s = rev (dropWhile isSpace (rev (dropWhile isSpace s)))"

text \<open>A string is truthy when it is not empty.\<close>

definition truthyStr :: "string \<Rightarrow> bool" where
  "truthyStr s = (s \<noteq> [])"

definition startsWith :: "string \<Rightarrow> string \<Rightarrow> bool" where
  "startsWith s p = (take (length p) s = p)"

text \<open>\<^verbatim>\<open>s.split(c)\<close> for a one-character separator: the empty string gives one empty
  piece.\<close>

fun splitOn :: "char \<Rightarrow> string \<Rightarrow> string list" where
  "splitOn c [] = [[]]"
| "splitOn c (x # xs) =
     (if x = c then [] # splitOn c xs
      else (case splitOn c xs of [] \<Rightarrow> [[x]] | y # ys \<Rightarrow> (x # y) # ys))"

text \<open>\<^verbatim>\<open>xs.join(sep)\<close>.\<close>

fun joinWith :: "string \<Rightarrow> string list \<Rightarrow> string" where
  "joinWith sep [] = []"
| "joinWith sep [x] = x"
| "joinWith sep (x # y # ys) = x @ sep @ joinWith sep (y # ys)"

text \<open>\<^verbatim>\<open>s.replaceAll(a, b)\<close> for one-character strings.\<close>

definition replaceAllChar :: "char \<Rightarrow> char \<Rightarrow> string \<Rightarrow> string" where
  "replaceAllChar a b s = map (\<lambda>c. if c = a then b else c) s"

text \<open>\<^verbatim>\<open>s.includes(t)\<close>: some suffix of \<open>s\<close> starts with \<open>t\<close>.\<close>

fun includesStr :: "string \<Rightarrow> string \<Rightarrow> bool" where
  "includesStr [] t = (t = [])"
| "includesStr (x # xs) t = (startsWith (x # xs) t \<or> includesStr xs t)"

text \<open>Decimal digits of a natural number and of an integer, as a template literal
  prints them.\<close>

fun showNat :: "nat \<Rightarrow> string" where
  "showNat n =
     (if n < 10 then [char_of (48 + n)]
      else showNat (n div 10) @ [char_of (48 + n mod 10)])"

declare showNat.simps [simp del]

definition showInt :: "int \<Rightarrow> string" where
  "showInt i = (if i < 0 then CHR ''-'' # showNat (nat (- i)) else showNat (nat i))"

section \<open>Agents, decisions and configuration (types.ts)\<close>

datatype AgentName = Codex | Claude

datatype Winner = Agent AgentName | Neither

datatype DecisionMode = Judge | Debate | PreferCodex | PreferClaude | ModeNeither

text \<open>The decision record. Its winner is declared as an agent name or \<^verbatim>\<open>"neither"\<close>
  and its rationale as a string; the decision phase fills them with whatever values the
  judges' JSON held, so the types of the two fields are parameters. The later phases read
  the record at its declared type.\<close>

record ('w, 'r) Decision =
  mode :: DecisionMode
  winner :: 'w
  rationale :: 'r
  judgeAgent :: "AgentName option"
  executionDriver :: "AgentName option"

datatype ImplementationMode = Parallel | Joint

datatype DriverSetting = Auto | Named AgentName

datatype ApplyMode = ApplyAuto | ApplyManual

datatype Reviewer = ReviewCodex | ReviewClaude | ReviewBoth

record DecisionConfig =
  dec_mode :: DecisionMode
  dec_judgeAgent :: "AgentName option"
  dec_debateRounds :: "int option"

record ReviewConfig =
  review_enabled :: bool
  review_reviewer :: Reviewer

record CommandConfig =
  cmd_enabled :: "bool option"
  cmd_command :: string
  cmd_args :: "string list option"

record ImplementationConfig =
  impl_mode :: "ImplementationMode option"
  impl_driver :: "DriverSetting option"
  impl_maxRounds :: "int option"
  impl_applyNavigatorPatch :: "ApplyMode option"
  impl_testsDuringLoop :: "bool option"
  impl_swapDriverOnFail :: "bool option"
  impl_swapDriverEachRound :: "bool option"

record ConvergeConfig =
  conv_enabled :: "bool option"
  conv_maxRounds :: "int option"

record GuardrailsConfig =
  g_enabled :: "bool option"
  g_maxFilesChanged :: "int option"
  g_maxLinesAdded :: "int option"
  g_maxLinesRemoved :: "int option"
  g_forbiddenPaths :: "string list option"
  g_forbidDependencyChanges :: "bool option"
  g_dependencyFiles :: "string list option"

text \<open>The parts of \<^verbatim>\<open>Config\<close> that the pipeline core reads. Every section is optional,
  as in the source; the numbers are the integers a configuration file can hold.\<close>

record Config =
  cfg_decision :: "DecisionConfig option"
  cfg_review :: "ReviewConfig option"
  cfg_tests :: "CommandConfig option"
  cfg_implementation :: "ImplementationConfig option"
  cfg_converge :: "ConvergeConfig option"
  cfg_guardrails :: "GuardrailsConfig option"

text \<open>\<^verbatim>\<open>config.tests?.enabled\<close> as a condition.\<close>

definition testsEnabled :: "Config \<Rightarrow> bool" where
  "testsEnabled config =
     (case cfg_tests config of None \<Rightarrow> False | Some t \<Rightarrow> cmd_enabled t = Some True)"

text \<open>\<^verbatim>\<open>config.implementation?.mode ?? "parallel"\<close>.\<close>

definition implementationMode :: "Config \<Rightarrow> ImplementationMode" where
  "implementationMode config =
     (case cfg_implementation config of
        None \<Rightarrow> Parallel
      | Some i \<Rightarrow> (case impl_mode i of None \<Rightarrow> Parallel | Some m \<Rightarrow> m))"

text \<open>What can be thrown: the two errors of worktree acquisition (\<^verbatim>\<open>Worktree path already
  exists\<close> and \<^verbatim>\<open>git worktree add failed\<close>), an error of the file system with its code,
  and anything else (a failed spawn, \<^verbatim>\<open>git diff failed\<close>, \<^verbatim>\<open>diff failed\<close>, a type
  error) with its message.\<close>

datatype Error = AlreadyExists string | VcsError string | FsError string | Thrown string

text \<open>Sequencing of steps that may throw.\<close>

definition bindE :: "'e + 'a \<Rightarrow> ('a \<Rightarrow> 'e + 'b) \<Rightarrow> 'e + 'b" where
  "bindE m f = (case m of Inl e \<Rightarrow> Inl e | Inr x \<Rightarrow> f x)"

text \<open>\<^verbatim>\<open>otherAgent\<close>.\<close>

definition otherAgent :: "AgentName \<Rightarrow> AgentName" where
  "otherAgent agent = (if agent = Codex then Claude else Codex)"

text \<open>\<^verbatim>\<open>resolveDriver\<close>: an interactive override first, then a configured name, then the
  decision's winner, then codex.\<close>

type_synonym TypedDecision = "(Winner, string) Decision"

definition resolveDriver :: "DriverSetting option \<Rightarrow> TypedDecision \<Rightarrow> AgentName" where
  "resolveDriver configured decision =
     (case executionDriver decision of
        Some d \<Rightarrow> d
      | None \<Rightarrow>
          (case configured of
             Some (Named a) \<Rightarrow> a
           | _ \<Rightarrow>
               (case winner decision of
                  Agent a \<Rightarrow> a
                | Neither \<Rightarrow> Codex)))"

section \<open>Values read from agent output (utils.ts)\<close>

text \<open>
  The values \<^verbatim>\<open>JSON.parse\<close> can return, and \<^verbatim>\<open>undefined\<close> for a property that is
  not there. A number is the rational it denotes. An object lists its properties with
  distinct keys, as \<^verbatim>\<open>JSON.parse\<close> builds it.
\<close>

datatype jsval =
  JUndefined | JNull | JBool bool | JNum rat | JStr string
  | JArr "jsval list" | JObj "(string \<times> jsval) list"

text \<open>The value as a condition (\<^verbatim>\<open>if (x)\<close>, \<^verbatim>\<open>x && y\<close>, \<^verbatim>\<open>filter(Boolean)\<close>).\<close>

fun truthy :: "jsval \<Rightarrow> bool" where
  "truthy JUndefined = False"
| "truthy JNull = False"
| "truthy (JBool b) = b"
| "truthy (JNum x) = (x \<noteq> 0)"
| "truthy (JStr s) = (s \<noteq> [])"
| "truthy (JArr xs) = True"
| "truthy (JObj kvs) = True"

text \<open>\<^verbatim>\<open>x?.key\<close> for the property names the program reads (\<^verbatim>\<open>winner\<close>, \<^verbatim>\<open>rationale\<close>,
  \<^verbatim>\<open>blockers\<close>, \<^verbatim>\<open>warnings\<close>, \<^verbatim>\<open>notes\<close>, \<^verbatim>\<open>id\<close>, \<^verbatim>\<open>summary\<close>, \<^verbatim>\<open>file\<close>,
  \<^verbatim>\<open>suggested_fix\<close>), none of which a prototype defines: only an object can hold them.\<close>

fun optProp :: "jsval \<Rightarrow> string \<Rightarrow> jsval" where
  "optProp (JObj kvs) key = (case map_of kvs key of Some v \<Rightarrow> v | None \<Rightarrow> JUndefined)"
| "optProp v key = JUndefined"

text \<open>\<^verbatim>\<open>a === b\<close> for two values that come from two different calls of \<^verbatim>\<open>JSON.parse\<close>:
  primitive values are compared by value, an array or object is never the same
  reference as one of the other parse.\<close>

fun strictEq :: "jsval \<Rightarrow> jsval \<Rightarrow> bool" where
  "strictEq JUndefined JUndefined = True"
| "strictEq JNull JNull = True"
| "strictEq (JBool a) (JBool b) = (a = b)"
| "strictEq (JNum a) (JNum b) = (a = b)"
| "strictEq (JStr a) (JStr b) = (a = b)"
| "strictEq a b = False"

text \<open>\<^verbatim>\<open>JSON.parse\<close> itself is the runtime's: it is a parameter \<open>parse\<close>, \<open>None\<close> where
  it throws a syntax error. \<^verbatim>\<open>safeJsonParse\<close> turns the exception into \<^verbatim>\<open>null\<close>.\<close>

definition safeJsonParse :: "(string \<Rightarrow> jsval option) \<Rightarrow> string \<Rightarrow> jsval" where
  "safeJsonParse parse v = (case parse v of None \<Rightarrow> JNull | Some j \<Rightarrow> j)"

text \<open>Letters compared without case, as the flag \<^verbatim>\<open>i\<close> does for ASCII letters.\<close>

definition lowerAscii :: "char \<Rightarrow> char" where
  "lowerAscii c =
     (if 65 \<le> (of_char c :: nat) \<and> (of_char c :: nat) \<le> 90 then char_of (of_char c + 32 :: nat) else c)"

text \<open>
  The regular expression \<^verbatim>\<open>/```json\s*([\s\S]*?)\s*```/i\<close>.
  \<open>afterOpener\<close> gives the text behind the leftmost \<^verbatim>\<open>```json\<close>;
  \<open>lazyCapture\<close> is the lazy group: the shortest prefix after which optional white
  space and three backticks follow; \<open>fencedBlock\<close> is group 1 of the match, if any.
\<close>

fun afterOpener :: "string \<Rightarrow> string option" where
  "afterOpener [] = None"
| "afterOpener (c # cs) =
     (if map lowerAscii (take 7 (c # cs)) = ''```json'' then Some (drop 7 (c # cs))
      else afterOpener cs)"

fun lazyCapture :: "string \<Rightarrow> string option" where
  "lazyCapture [] = None"
| "lazyCapture (c # cs) =
     (if startsWith (dropWhile isSpace (c # cs)) ''```'' then Some []
      else (case lazyCapture cs of None \<Rightarrow> None | Some g \<Rightarrow> Some (c # g)))"

definition fencedBlock :: "string \<Rightarrow> string option" where
  "fencedBlock v =
     (case afterOpener v of
        None \<Rightarrow> None
      | Some rest \<Rightarrow> lazyCapture (dropWhile isSpace rest))"

text \<open>\<^verbatim>\<open>indexOf\<close>, \<^verbatim>\<open>lastIndexOf\<close> of a character (\<open>-1\<close> when absent) and \<^verbatim>\<open>slice\<close>
  between two indices that are not negative.\<close>

definition indexOf :: "char \<Rightarrow> string \<Rightarrow> int" where
  "indexOf c s = (if c \<in> set s then int (length (takeWhile (\<lambda>x. x \<noteq> c) s)) else - 1)"

definition lastIndexOf :: "char \<Rightarrow> string \<Rightarrow> int" where
  "lastIndexOf c s =
     (if c \<in> set s then int (length s) - 1 - int (length (takeWhile (\<lambda>x. x \<noteq> c) (rev s)))
      else - 1)"

definition slice :: "string \<Rightarrow> int \<Rightarrow> int \<Rightarrow> string" where
  "slice s a b = take (nat (b - a)) (drop (nat a) s)"

text \<open>\<^verbatim>\<open>extractJson\<close>.\<close>

definition extractJson :: "(string \<Rightarrow> jsval option) \<Rightarrow> string \<Rightarrow> jsval" where
  "extractJson parse v =
     (let direct = safeJsonParse parse (trim v) in
      if truthy direct then direct
      else
        (let fenced = fencedBlock v;
             parsed = (case fenced of
                         None \<Rightarrow> JNull
                       | Some g \<Rightarrow> if truthyStr g then safeJsonParse parse g else JNull)
         in if truthy parsed then parsed
            else
              (let firstBrace = indexOf (CHR ''{'') v;
                   lastBrace = lastIndexOf (CHR ''}'') v
               in if firstBrace \<noteq> - 1 \<and> lastBrace \<noteq> - 1 \<and> lastBrace > firstBrace
                  then safeJsonParse parse (slice v firstBrace (lastBrace + 1))
                  else JNull)))"

subsection \<open>The three tiers, as the specification words them\<close>

text \<open>Each tier either yields the result of a parse or nothing: the direct parse of the
  trimmed text; the parse of the content of a \<^verbatim>\<open>```json\<close> fenced block; the parse of the
  substring from the first opening brace to the last closing brace.\<close>

definition tierDirect :: "(string \<Rightarrow> jsval option) \<Rightarrow> string \<Rightarrow> jsval option" where
  "tierDirect parse v = parse (trim v)"

definition tierFenced :: "(string \<Rightarrow> jsval option) \<Rightarrow> string \<Rightarrow> jsval option" where
  "tierFenced parse v =
     (case fencedBlock v of
        None \<Rightarrow> None
      | Some g \<Rightarrow> if g = [] then None else parse g)"

definition braceSpan :: "string \<Rightarrow> string option" where
  "braceSpan v =
     (let fromFirst = dropWhile (\<lambda>c. c \<noteq> CHR ''{'') v
      in if CHR ''}'' \<in> set fromFirst
         then Some (rev (dropWhile (\<lambda>c. c \<noteq> CHR ''}'') (rev fromFirst)))
         else None)"

definition tierBraces :: "(string \<Rightarrow> jsval option) \<Rightarrow> string \<Rightarrow> jsval option" where
  "tierBraces parse v = (case braceSpan v of None \<Rightarrow> None | Some s \<Rightarrow> parse s)"

text \<open>The claim as worded: the value of the first tier that yields a parsed result,
  \<^verbatim>\<open>null\<close> when none does.\<close>

definition extractJsonSpec :: "(string \<Rightarrow> jsval option) \<Rightarrow> string \<Rightarrow> jsval" where
  "extractJsonSpec parse v =
     (case tierDirect parse v of
        Some j \<Rightarrow> j
      | None \<Rightarrow>
          (case tierFenced parse v of
             Some j \<Rightarrow> j
           | None \<Rightarrow> (case tierBraces parse v of Some j \<Rightarrow> j | None \<Rightarrow> JNull)))"

text \<open>A tier's result that the first two tiers accept: a parsed value that is truthy.\<close>

definition accepted :: "jsval option \<Rightarrow> bool" where
  "accepted r = (case r of None \<Rightarrow> False | Some j \<Rightarrow> truthy j)"

text \<open>The result of a tier as a value, \<^verbatim>\<open>null\<close> for nothing.\<close>

definition orNull :: "jsval option \<Rightarrow> jsval" where
  "orNull r = (case r of None \<Rightarrow> JNull | Some j \<Rightarrow> j)"

section \<open>Reading a unified diff\<close>

record DiffStats =
  ds_added :: nat
  ds_removed :: nat

text \<open>\<^verbatim>\<open>summarizeDiff\<close>: the file headers are skipped, every other line that starts with
  a plus or a minus sign is counted.\<close>

definition summarizeLine :: "DiffStats \<Rightarrow> string \<Rightarrow> DiffStats" where
  "summarizeLine st line =
     (if startsWith line ''+++ '' \<or> startsWith line ''--- '' then st
      else if startsWith line ''+'' then st\<lparr>ds_added := ds_added st + 1\<rparr>
      else if startsWith line ''-'' then st\<lparr>ds_removed := ds_removed st + 1\<rparr>
      else st)"

definition summarizeDiff :: "string \<Rightarrow> DiffStats" where
  "summarizeDiff diff =
     foldl summarizeLine \<lparr>ds_added = 0, ds_removed = 0\<rparr> (splitOn (CHR 0x0A) diff)"

text \<open>One step of the loop over the two directory prefixes in \<^verbatim>\<open>strip\<close>: the prefix is
  cut off, and a separator after it.\<close>

definition stripPrefixDir :: "string \<Rightarrow> string \<Rightarrow> string" where
  "stripPrefixDir prefix p =
     (if startsWith p prefix
      then (let q = drop (length prefix) p in if startsWith q ''/'' then drop 1 q else q)
      else p)"

text \<open>\<^verbatim>\<open>strip\<close>: the path of a header without its time stamp, its \<^verbatim>\<open>a/\<close> or \<^verbatim>\<open>b/\<close> and the
  root or worktree directory in front of it.\<close>

definition strip :: "string \<Rightarrow> string \<Rightarrow> string \<Rightarrow> string" where
  "strip rootDir worktreeDir v =
     (let p0 = trim v;
          p1 = (if includesStr p0 [CHR 0x09]
                then (case splitOn (CHR 0x09) p0 of [] \<Rightarrow> p0 | x # xs \<Rightarrow> x)
                else p0);
          p2 = (if startsWith p1 ''a/'' \<or> startsWith p1 ''b/'' then drop 2 p1 else p1);
          p3 = stripPrefixDir worktreeDir (stripPrefixDir rootDir p2)
      in trim (replaceAllChar (CHR 0x5C) (CHR ''/'') p3))"

text \<open>
  The regular expression \<^verbatim>\<open>/^diff --git a\/(.+?) b\/(.+)$/\<close> on a line: group 2 of the
  match. The line must start with \<^verbatim>\<open>diff --git a/\<close>, hold no line terminator after that,
  and the lazy group 1 ends at the first \<^verbatim>\<open> b/\<close>, not at the very start, that has
  something after it.
\<close>

fun afterFirstB :: "string \<Rightarrow> string option" where
  "afterFirstB [] = None"
| "afterFirstB (c # cs) =
     (if startsWith (c # cs) '' b/'' \<and> length (c # cs) > 3 then Some (drop 3 (c # cs))
      else afterFirstB cs)"

definition gitHeaderTarget :: "string \<Rightarrow> string option" where
  "gitHeaderTarget line =
     (if startsWith line ''diff --git a/''
      then (let rest = drop 13 line
            in if list_ex isLineTerminator rest then None
               else (case rest of [] \<Rightarrow> None | c # cs \<Rightarrow> afterFirstB cs))
      else None)"

text \<open>\<^verbatim>\<open>xs[i]\<close>, \<^verbatim>\<open>undefined\<close> beyond the end.\<close>

fun nthOpt :: "'a list \<Rightarrow> nat \<Rightarrow> 'a option" where
  "nthOpt [] i = None"
| "nthOpt (x # xs) 0 = Some x"
| "nthOpt (x # xs) (Suc i) = nthOpt xs i"

text \<open>The paths one line of the diff adds to the set of changed files.\<close>

definition changedFilesOfLine :: "string \<Rightarrow> string \<Rightarrow> string \<Rightarrow> string list" where
  "changedFilesOfLine rootDir worktreeDir line =
     (if startsWith line ''diff --git '' then
        (case gitHeaderTarget line of
           None \<Rightarrow> []
         | Some target \<Rightarrow> [strip rootDir worktreeDir target])
      else if startsWith line ''diff -ruN '' then
        (let parts = filter truthyStr (splitOn (CHR '' '') line);
             left = nthOpt parts 2;
             right = nthOpt parts 3;
             pick = (case right of
                       None \<Rightarrow> left
                     | Some r \<Rightarrow> if truthyStr r \<and> r \<noteq> ''/dev/null'' then Some r else left)
         in (case pick of
               None \<Rightarrow> []
             | Some p \<Rightarrow> if truthyStr p \<and> p \<noteq> ''/dev/null'' then [strip rootDir worktreeDir p] else []))
      else if startsWith line ''+++ '' \<or> startsWith line ''--- '' then
        (let raw = trim (drop 4 line)
         in if raw = ''/dev/null'' then [] else [strip rootDir worktreeDir raw])
      else [])"

text \<open>\<^verbatim>\<open>extractChangedFilesFromDiff\<close>: the paths of all lines, without duplicates and
  empty strings, sorted.\<close>

definition extractChangedFilesFromDiff :: "string \<Rightarrow> string \<Rightarrow> string \<Rightarrow> string list" where
  "extractChangedFilesFromDiff diff rootDir worktreeDir =
     sort (filter truthyStr
       (remdups (concat (map (changedFilesOfLine rootDir worktreeDir) (splitOn (CHR 0x0A) diff)))))"

section \<open>Guardrails (evaluateGuardrails, matchesGlob)\<close>

text \<open>
  \<^verbatim>\<open>globToRegExp\<close> turns every \<^verbatim>\<open>*\<close> into \<^verbatim>\<open>.*\<close> and escapes every other character that a
  regular expression would read as an operator, so the expression is a sequence of
  literal characters and \<^verbatim>\<open>.*\<close>, anchored at both ends.
\<close>

datatype RegexAtom = Lit char | AnyStar

definition globToRegExp :: "string \<Rightarrow> RegexAtom list" where
  "globToRegExp glob = map (\<lambda>ch. if ch = CHR ''*'' then AnyStar else Lit ch) glob"

text \<open>\<^verbatim>\<open>RegExp.prototype.test\<close> for such an expression: \<^verbatim>\<open>.\<close> takes any character but a
  line terminator.\<close>

fun regexTest :: "RegexAtom list \<Rightarrow> string \<Rightarrow> bool" where
  "regexTest [] s = (s = [])"
| "regexTest (Lit c # r) [] = False"
| "regexTest (Lit c # r) (x # xs) = (x = c \<and> regexTest r xs)"
| "regexTest (AnyStar # r) [] = regexTest r []"
| "regexTest (AnyStar # r) (x # xs) =
     (regexTest r (x # xs) \<or> (\<not> isLineTerminator x \<and> regexTest (AnyStar # r) xs))"

text \<open>\<^verbatim>\<open>path.basename\<close> (POSIX): trailing slashes are dropped, then what follows the last
  slash is taken.\<close>

definition basename :: "string \<Rightarrow> string" where
  "basename p =
     rev (takeWhile (\<lambda>c. c \<noteq> CHR ''/'') (dropWhile (\<lambda>c. c = CHR ''/'') (rev p)))"

text \<open>\<^verbatim>\<open>relPath.replaceAll("\\", "/")\<close>.\<close>

definition normalizeSeparators :: "string \<Rightarrow> string" where
  "normalizeSeparators relPath = replaceAllChar (CHR 0x5C) (CHR ''/'') relPath"

definition matchesGlob :: "string \<Rightarrow> string \<Rightarrow> bool" where
  "matchesGlob glob relPath =
     (let normalized = normalizeSeparators relPath;
          target = (if includesStr glob ''/'' then normalized else basename normalized)
      in regexTest (globToRegExp glob) target)"

text \<open>The builtin list of dependency manifests and lock files.\<close>

definition defaultDependencyFiles :: "string list" where
  "defaultDependencyFiles =
     [''package.json'', ''package-lock.json'', ''pnpm-lock.yaml'', ''yarn.lock'', ''bun.lockb'',
      ''Cargo.toml'', ''Cargo.lock'', ''pyproject.toml'', ''poetry.lock'', ''requirements.txt'',
      ''go.mod'', ''go.sum'']"

text \<open>The settings of a policy with their defaults.\<close>

definition maxFilesChanged :: "GuardrailsConfig \<Rightarrow> int" where
  "maxFilesChanged g = (case g_maxFilesChanged g of None \<Rightarrow> 50 | Some n \<Rightarrow> n)"

definition maxLinesAdded :: "GuardrailsConfig \<Rightarrow> int" where
  "maxLinesAdded g = (case g_maxLinesAdded g of None \<Rightarrow> 2000 | Some n \<Rightarrow> n)"

definition maxLinesRemoved :: "GuardrailsConfig \<Rightarrow> int" where
  "maxLinesRemoved g = (case g_maxLinesRemoved g of None \<Rightarrow> 2000 | Some n \<Rightarrow> n)"

definition forbiddenPatterns :: "GuardrailsConfig \<Rightarrow> string list" where
  "forbiddenPatterns g =
     filter truthyStr (case g_forbiddenPaths g of None \<Rightarrow> [] | Some ps \<Rightarrow> ps)"

definition dependencyFileSet :: "GuardrailsConfig \<Rightarrow> string list" where
  "dependencyFileSet g =
     filter truthyStr
       (map trim (case g_dependencyFiles g of None \<Rightarrow> defaultDependencyFiles | Some fs \<Rightarrow> fs))"

text \<open>The messages of the five rules. A ceiling is an integer of the configuration file and
  is printed in decimal digits, as the template literal prints an integer below
  \<open>10\<^sup>2\<^sup>1\<close> in magnitude; from there on JavaScript prints the exponent form, which only
  changes the text of the message.\<close>

definition tooManyFiles :: "nat \<Rightarrow> int \<Rightarrow> string" where
  "tooManyFiles n m = ''Too many files changed ('' @ showNat n @ '' > '' @ showInt m @ '').''"

definition tooManyAdded :: "nat \<Rightarrow> int \<Rightarrow> string" where
  "tooManyAdded n m = ''Too many lines added ('' @ showNat n @ '' > '' @ showInt m @ '').''"

definition tooManyRemoved :: "nat \<Rightarrow> int \<Rightarrow> string" where
  "tooManyRemoved n m = ''Too many lines removed ('' @ showNat n @ '' > '' @ showInt m @ '').''"

definition forbiddenChanged :: "string list \<Rightarrow> string" where
  "forbiddenChanged hit =
     ''Forbidden paths changed: '' @ joinWith '', '' (take 10 hit) @
     (if length hit > 10 then '' '' else [])"

definition dependencyChanged :: "string list \<Rightarrow> string" where
  "dependencyChanged depHits = ''Dependency files changed (not allowed): '' @ joinWith '', '' depHits"

text \<open>The changed files a rule objects to.\<close>

definition forbiddenHits :: "GuardrailsConfig \<Rightarrow> string list \<Rightarrow> string list" where
  "forbiddenHits g changedFiles =
     filter (\<lambda>f. list_ex (\<lambda>pat. matchesGlob pat f) (forbiddenPatterns g)) changedFiles"

definition dependencyHits :: "GuardrailsConfig \<Rightarrow> string list \<Rightarrow> string list" where
  "dependencyHits g changedFiles = filter (\<lambda>f. f \<in> set (dependencyFileSet g)) changedFiles"

text \<open>\<^verbatim>\<open>evaluateGuardrails\<close>.\<close>

definition evaluateGuardrails :: "Config \<Rightarrow> string list \<Rightarrow> DiffStats \<Rightarrow> string list" where
  "evaluateGuardrails config changedFiles stats =
     (case cfg_guardrails config of
        None \<Rightarrow> []
      | Some g \<Rightarrow>
          if g_enabled g \<noteq> Some True then []
          else
            (if int (length changedFiles) > maxFilesChanged g
             then [tooManyFiles (length changedFiles) (maxFilesChanged g)] else []) @
            (if int (ds_added stats) > maxLinesAdded g
             then [tooManyAdded (ds_added stats) (maxLinesAdded g)] else []) @
            (if int (ds_removed stats) > maxLinesRemoved g
             then [tooManyRemoved (ds_removed stats) (maxLinesRemoved g)] else []) @
            (if length (forbiddenPatterns g) > 0
             then (let hit = forbiddenHits g changedFiles
                   in if length hit > 0 then [forbiddenChanged hit] else [])
             else []) @
            (if g_forbidDependencyChanges g = Some True
             then (let depHits = dependencyHits g changedFiles
                   in if length depHits > 0 then [dependencyChanged depHits] else [])
             else []))"

text \<open>Guardrails are switched on.\<close>

definition guardrailsEnabled :: "Config \<Rightarrow> bool" where
  "guardrailsEnabled config =
     (case cfg_guardrails config of None \<Rightarrow> False | Some g \<Rightarrow> g_enabled g = Some True)"

text \<open>The policy of a configuration: its guardrails section, or one with nothing set.\<close>

definition policy :: "Config \<Rightarrow> GuardrailsConfig" where
  "policy config =
     (case cfg_guardrails config of
        Some g \<Rightarrow> g
      | None \<Rightarrow> \<lparr>g_enabled = None, g_maxFilesChanged = None, g_maxLinesAdded = None,
                  g_maxLinesRemoved = None, g_forbiddenPaths = None,
                  g_forbidDependencyChanges = None, g_dependencyFiles = None\<rparr>)"

text \<open>The five rules as conditions on the input.\<close>

definition filesRuleViolated :: "GuardrailsConfig \<Rightarrow> string list \<Rightarrow> bool" where
  "filesRuleViolated g changedFiles = (int (length changedFiles) > maxFilesChanged g)"

definition addedRuleViolated :: "GuardrailsConfig \<Rightarrow> DiffStats \<Rightarrow> bool" where
  "addedRuleViolated g stats = (int (ds_added stats) > maxLinesAdded g)"

definition removedRuleViolated :: "GuardrailsConfig \<Rightarrow> DiffStats \<Rightarrow> bool" where
  "removedRuleViolated g stats = (int (ds_removed stats) > maxLinesRemoved g)"

definition forbiddenRuleViolated :: "GuardrailsConfig \<Rightarrow> string list \<Rightarrow> bool" where
  "forbiddenRuleViolated g changedFiles =
     list_ex (\<lambda>f. list_ex (\<lambda>pat. pat \<noteq> [] \<and> matchesGlob pat f)
                     (case g_forbiddenPaths g of None \<Rightarrow> [] | Some ps \<Rightarrow> ps)) changedFiles"

definition dependencyRuleViolated :: "GuardrailsConfig \<Rightarrow> string list \<Rightarrow> bool" where
  "dependencyRuleViolated g changedFiles =
     (g_forbidDependencyChanges g = Some True \<and>
      list_ex (\<lambda>f. f \<in> set (dependencyFileSet g)) changedFiles)"

subsection \<open>An example policy\<close>




section \<open>The file system (fs, workspace.ts, git.ts)\<close>

text \<open>
  A file system is a tree: a file with its content, or a directory with its entries,
  whose names are distinct. A path is the list of names from the root; \<^verbatim>\<open>path.join\<close>
  appends names and \<^verbatim>\<open>path.dirname\<close> drops the last one. Links and permissions are not
  modelled.
\<close>

type_synonym Path = "string list"

datatype Node = File string | Dir "(string \<times> Node) list"

text \<open>The path as the program prints it.\<close>

definition pathString :: "Path \<Rightarrow> string" where
  "pathString p = concat (map (\<lambda>name. CHR ''/'' # name) p)"

fun lookup :: "Node \<Rightarrow> Path \<Rightarrow> Node option" where
  "lookup n [] = Some n"
| "lookup (File c) (p # ps) = None"
| "lookup (Dir es) (p # ps) = (case map_of es p of None \<Rightarrow> None | Some n \<Rightarrow> lookup n ps)"

text \<open>\<^verbatim>\<open>fs.existsSync\<close>.\<close>

definition existsSync :: "Node \<Rightarrow> Path \<Rightarrow> bool" where
  "existsSync fs p = (lookup fs p \<noteq> None)"

text \<open>Setting the entry \<open>k\<close> of a directory.\<close>

fun putEntry :: "string \<Rightarrow> Node \<Rightarrow> (string \<times> Node) list \<Rightarrow> (string \<times> Node) list" where
  "putEntry k v [] = [(k, v)]"
| "putEntry k v ((k', v') # es) =
     (if k = k' then (k, v) # es else (k', v') # putEntry k v es)"

text \<open>\<^verbatim>\<open>fs.mkdirSync(p, { recursive: true })\<close>, which is \<^verbatim>\<open>ensureDir\<close>: missing directories
  are created, a directory that is there is left alone, a file in the way is an error.\<close>

fun ensureDir :: "Node \<Rightarrow> Path \<Rightarrow> Error + Node" where
  "ensureDir (Dir es) [] = Inr (Dir es)"
| "ensureDir (File c) [] = Inl (FsError ''EEXIST'')"
| "ensureDir (File c) (p # ps) = Inl (FsError ''ENOTDIR'')"
| "ensureDir (Dir es) (p # ps) =
     (case ensureDir (case map_of es p of None \<Rightarrow> Dir [] | Some n \<Rightarrow> n) ps of
        Inl e \<Rightarrow> Inl e
      | Inr n' \<Rightarrow> Inr (Dir (putEntry p n' es)))"

text \<open>Putting a node at a path whose parent directory exists.\<close>

fun writeNode :: "Node \<Rightarrow> Path \<Rightarrow> Node \<Rightarrow> Error + Node" where
  "writeNode fs [] n = Inr n"
| "writeNode (File c) (p # ps) n = Inl (FsError ''ENOTDIR'')"
| "writeNode (Dir es) [p] n = Inr (Dir (putEntry p n es))"
| "writeNode (Dir es) (p # q # ps) n =
     (case map_of es p of
        None \<Rightarrow> Inl (FsError ''ENOENT'')
      | Some d \<Rightarrow>
          (case writeNode d (q # ps) n of
             Inl e \<Rightarrow> Inl e
           | Inr d' \<Rightarrow> Inr (Dir (putEntry p d' es))))"

text \<open>\<^verbatim>\<open>fs.readdirSync(p, { withFileTypes: true })\<close>.\<close>

definition readdirSync :: "Node \<Rightarrow> Path \<Rightarrow> Error + (string \<times> Node) list" where
  "readdirSync fs p =
     (case lookup fs p of
        None \<Rightarrow> Inl (FsError ''ENOENT'')
      | Some (File c) \<Rightarrow> Inl (FsError ''ENOTDIR'')
      | Some (Dir es) \<Rightarrow> Inr es)"

text \<open>Copying a node over a node that is there, as \<^verbatim>\<open>fs.cpSync\<close> with \<^verbatim>\<open>recursive\<close> and
  \<^verbatim>\<open>force\<close> does: a file replaces a file, a directory is merged into a directory entry by
  entry, a file and a directory do not mix.\<close>

fun mergeNode :: "Node \<Rightarrow> Node \<Rightarrow> Error + Node"
  and mergeEntries :: "(string \<times> Node) list \<Rightarrow> (string \<times> Node) list \<Rightarrow> Error + (string \<times> Node) list" where
  "mergeNode (File c) (File d) = Inr (File c)"
| "mergeNode (File c) (Dir es) = Inl (FsError ''ERR_FS_CP_NON_DIR_TO_DIR'')"
| "mergeNode (Dir ss) (File d) = Inl (FsError ''ERR_FS_CP_DIR_TO_NON_DIR'')"
| "mergeNode (Dir ss) (Dir es) =
     (case mergeEntries ss es of Inl e \<Rightarrow> Inl e | Inr es' \<Rightarrow> Inr (Dir es'))"
| "mergeEntries [] es = Inr es"
| "mergeEntries ((name, n) # ss) es =
     (case (case map_of es name of None \<Rightarrow> Inr n | Some e \<Rightarrow> mergeNode n e) of
        Inl err \<Rightarrow> Inl err
      | Inr n' \<Rightarrow> mergeEntries ss (putEntry name n' es))"

text \<open>\<open>src\<close> is \<open>dest\<close> or an ancestor of it.\<close>

definition isWithin :: "Path \<Rightarrow> Path \<Rightarrow> bool" where
  "isWithin dest src = (take (length src) dest = src)"

text \<open>\<^verbatim>\<open>fs.cpSync(src, dest, { recursive: true, force: true })\<close>: the source must exist and
  must not contain the destination; the parent of the destination is created.\<close>

definition cpSync :: "Node \<Rightarrow> Path \<Rightarrow> Path \<Rightarrow> Error + Node" where
  "cpSync fs src dest =
     (case lookup fs src of
        None \<Rightarrow> Inl (FsError ''ENOENT'')
      | Some n \<Rightarrow>
          if isWithin dest src then Inl (FsError ''ERR_FS_CP_EINVAL'')
          else
            (case ensureDir fs (butlast dest) of
               Inl e \<Rightarrow> Inl e
             | Inr fs1 \<Rightarrow>
                 (case lookup fs1 dest of
                    None \<Rightarrow> writeNode fs1 dest n
                  | Some d \<Rightarrow>
                      (case mergeNode n d of
                         Inl e \<Rightarrow> Inl e
                       | Inr m \<Rightarrow> writeNode fs1 dest m))))"

text \<open>The directories a copy of the workspace leaves out.\<close>

definition DEFAULT_EXCLUDES :: "string list" where
  "DEFAULT_EXCLUDES = [''.git'', ''.orchestrator'', ''node_modules'', ''dist'', ''build'']"

text \<open>The loop of \<^verbatim>\<open>copyWorkspace\<close> over the entries of the source directory.\<close>

fun copyEntries :: "Path \<Rightarrow> Path \<Rightarrow> string list \<Rightarrow> string list \<Rightarrow> Node \<Rightarrow> Error + Node" where
  "copyEntries sourceDir destDir excludes [] fs = Inr fs"
| "copyEntries sourceDir destDir excludes (name # names) fs =
     (if name \<in> set excludes then copyEntries sourceDir destDir excludes names fs
      else
        (case cpSync fs (sourceDir @ [name]) (destDir @ [name]) of
           Inl e \<Rightarrow> Inl e
         | Inr fs' \<Rightarrow> copyEntries sourceDir destDir excludes names fs'))"

text \<open>\<^verbatim>\<open>copyWorkspace\<close> (workspace.ts).\<close>

definition copyWorkspace :: "Path \<Rightarrow> Path \<Rightarrow> string list \<Rightarrow> Node \<Rightarrow> Error + Node" where
  "copyWorkspace sourceDir destDir excludes fs =
     (case ensureDir fs destDir of
        Inl e \<Rightarrow> Inl e
      | Inr fs1 \<Rightarrow>
          (case readdirSync fs1 sourceDir of
             Inl e \<Rightarrow> Inl e
           | Inr entries \<Rightarrow> copyEntries sourceDir destDir excludes (map fst entries) fs1))"

text \<open>\<^verbatim>\<open>git worktree add <path> HEAD\<close> run in \<open>rootDir\<close>: an external command, which may
  fail to start, and otherwise gives its exit code, its error output and the file system
  it leaves.\<close>

type_synonym GitWorktreeAdd = "Node \<Rightarrow> Path \<Rightarrow> Path \<Rightarrow> Error + (int \<times> string \<times> Node)"

text \<open>\<^verbatim>\<open>ensureWorktree\<close> (git.ts).\<close>

definition ensureWorktree :: "GitWorktreeAdd \<Rightarrow> Path \<Rightarrow> Path \<Rightarrow> Node \<Rightarrow> Error + Node" where
  "ensureWorktree git rootDir worktreePath fs =
     (if existsSync fs worktreePath
      then Inl (AlreadyExists (''Worktree path already exists: '' @ pathString worktreePath))
      else
        (case ensureDir fs (butlast worktreePath) of
           Inl e \<Rightarrow> Inl e
         | Inr fs1 \<Rightarrow>
             (case git fs1 rootDir worktreePath of
                Inl e \<Rightarrow> Inl e
              | Inr (exitCode, stderr, fs2) \<Rightarrow>
                  if exitCode \<noteq> 0 then Inl (VcsError (''git worktree add failed: '' @ stderr))
                  else Inr fs2)))"

text \<open>Worktree acquisition as the implementation phases do it: the native worktree in a
  repository, the copy of the workspace otherwise.\<close>

definition acquire :: "GitWorktreeAdd \<Rightarrow> bool \<Rightarrow> Path \<Rightarrow> Path \<Rightarrow> Node \<Rightarrow> Error + Node" where
  "acquire git isGit rootDir destPath fs =
     (if isGit then ensureWorktree git rootDir destPath fs
      else copyWorkspace rootDir destPath DEFAULT_EXCLUDES fs)"

subsection \<open>An example workspace\<close>

text \<open>A workspace with a manifest and a source file, in which the destination of a
  worktree is already there as an empty directory.\<close>

definition exampleRoot :: Path where
  "exampleRoot = [''work'']"

definition exampleDest :: Path where
  "exampleDest = [''work'', ''.orchestrator'', ''worktrees'', ''run-1'', ''codex'']"

definition exampleFs :: Node where
  "exampleFs =
     Dir [(''work'',
           Dir [(''package.json'', File ''{}''),
                (''src'', Dir [(''a.ts'', File ''export {}'')]),
                (''.orchestrator'',
                 Dir [(''worktrees'', Dir [(''run-1'', Dir [(''codex'', Dir [])])])])])]"

definition noGit :: GitWorktreeAdd where
  "noGit = (\<lambda>fs rootDir worktreePath. Inl (Thrown ''spawn git ENOENT''))"

definition exampleFsAfterCopy :: Node where
  "exampleFsAfterCopy =
     Dir [(''work'',
           Dir [(''package.json'', File ''{}''),
                (''src'', Dir [(''a.ts'', File ''export {}'')]),
                (''.orchestrator'',
                 Dir [(''worktrees'',
                       Dir [(''run-1'',
                             Dir [(''codex'',
                                   Dir [(''package.json'', File ''{}''),
                                        (''src'', Dir [(''a.ts'', File ''export {}'')])])])])])])]"

section \<open>Applying the final patch (applyWinnerPatch, syncWorkspace)\<close>

text \<open>\<^verbatim>\<open>readText\<close>: \<^verbatim>\<open>null\<close> for a path that does not exist; reading a directory throws.\<close>

definition readText :: "Node \<Rightarrow> Path \<Rightarrow> Error + string option" where
  "readText fs filePath =
     (case lookup fs filePath of
        None \<Rightarrow> Inr None
      | Some (File c) \<Rightarrow> Inr (Some c)
      | Some (Dir es) \<Rightarrow> Inl (FsError ''EISDIR''))"

text \<open>\<^verbatim>\<open>writeText\<close>: the directory of the file is created, then the file is written.\<close>

definition writeText :: "Node \<Rightarrow> Path \<Rightarrow> string \<Rightarrow> Error + Node" where
  "writeText fs filePath content =
     (case ensureDir fs (butlast filePath) of
        Inl e \<Rightarrow> Inl e
      | Inr fs1 \<Rightarrow>
          (case lookup fs1 filePath of
             Some (Dir es) \<Rightarrow> Inl (FsError ''EISDIR'')
           | _ \<Rightarrow> writeNode fs1 filePath (File content)))"

text \<open>\<^verbatim>\<open>fs.rmSync(p, { recursive: true, force: true })\<close>: a path that is not there is not an
  error.\<close>

fun rmSync :: "Node \<Rightarrow> Path \<Rightarrow> Node" where
  "rmSync n [] = n"
| "rmSync (File c) (p # ps) = File c"
| "rmSync (Dir es) [p] = Dir (filter (\<lambda>e. fst e \<noteq> p) es)"
| "rmSync (Dir es) (p # q # ps) =
     (case map_of es p of
        None \<Rightarrow> Dir es
      | Some d \<Rightarrow> Dir (putEntry p (rmSync d (q # ps)) es))"

text \<open>The walk of \<^verbatim>\<open>listRelativeEntries\<close> below the directory at \<open>currentRel\<close>: every entry
  whose top-level name is not excluded, a directory before its content.\<close>

fun walk :: "string list \<Rightarrow> Path \<Rightarrow> Node \<Rightarrow> Path list"
  and walkEntries :: "string list \<Rightarrow> Path \<Rightarrow> (string \<times> Node) list \<Rightarrow> Path list" where
  "walk excludes currentRel (File c) = []"
| "walk excludes currentRel (Dir es) = walkEntries excludes currentRel es"
| "walkEntries excludes currentRel [] = []"
| "walkEntries excludes currentRel ((name, n) # es) =
     (let relPath = currentRel @ [name]
      in (if (case relPath of [] \<Rightarrow> False | topName # rest \<Rightarrow> topName \<in> set excludes) then []
          else relPath # walk excludes relPath n) @
         walkEntries excludes currentRel es)"

definition listRelativeEntries :: "Node \<Rightarrow> Path \<Rightarrow> string list \<Rightarrow> Error + Path list" where
  "listRelativeEntries fs rootDir excludes =
     (case lookup fs rootDir of
        None \<Rightarrow> Inl (FsError ''ENOENT'')
      | Some (File c) \<Rightarrow> Inl (FsError ''ENOTDIR'')
      | Some (Dir es) \<Rightarrow> Inr (walk excludes [] (Dir es)))"

text \<open>The length of a relative path as a string.\<close>

definition relPathLength :: "Path \<Rightarrow> nat" where
  "relPathLength p = length (joinWith ''/'' p)"

text \<open>\<^verbatim>\<open>fs.cpSync\<close> with the filter of \<^verbatim>\<open>syncWorkspace\<close>: the excluded top-level entries of
  the source are left out.\<close>

definition cpSyncFiltered :: "Node \<Rightarrow> Path \<Rightarrow> Path \<Rightarrow> string list \<Rightarrow> Error + Node" where
  "cpSyncFiltered fs src dest excludes =
     (case lookup fs src of
        None \<Rightarrow> Inl (FsError ''ENOENT'')
      | Some n \<Rightarrow>
          if isWithin dest src then Inl (FsError ''ERR_FS_CP_EINVAL'')
          else
            (let kept = (case n of
                           File c \<Rightarrow> File c
                         | Dir ss \<Rightarrow> Dir (filter (\<lambda>e. fst e \<notin> set excludes) ss))
             in (case ensureDir fs (butlast dest) of
                   Inl e \<Rightarrow> Inl e
                 | Inr fs1 \<Rightarrow>
                     (case lookup fs1 dest of
                        None \<Rightarrow> writeNode fs1 dest kept
                      | Some d \<Rightarrow>
                          (case mergeNode kept d of
                             Inl e \<Rightarrow> Inl e
                           | Inr m \<Rightarrow> writeNode fs1 dest m)))))"

text \<open>\<^verbatim>\<open>syncWorkspace\<close> (workspace.ts): what the destination has and the source has not is
  removed, longest relative path first, then the source is copied over.\<close>

definition syncWorkspace :: "Path \<Rightarrow> Path \<Rightarrow> string list \<Rightarrow> Node \<Rightarrow> Error + Node" where
  "syncWorkspace sourceDir destDir excludes fs =
     bindE (ensureDir fs destDir) (\<lambda>fs1.
     bindE (listRelativeEntries fs1 sourceDir excludes) (\<lambda>sourceEntries.
     bindE (listRelativeEntries fs1 destDir excludes) (\<lambda>destEntries.
       let toRemove = sort_key (\<lambda>p. - int (relPathLength p))
                        (filter (\<lambda>p. p \<notin> set sourceEntries) destEntries);
           fs2 = foldl (\<lambda>f p. rmSync f (destDir @ p)) fs1 toRemove
       in cpSyncFiltered fs2 sourceDir destDir excludes)))"

text \<open>The external commands of the apply step: \<^verbatim>\<open>git apply <patch>\<close> and the test command,
  both run in the root directory. Each may fail to start, and otherwise gives its output
  and the file system it leaves.\<close>

record ApplyWorld =
  aw_gitApply :: "Node \<Rightarrow> Path \<Rightarrow> Path \<Rightarrow> Error + (string \<times> Node)"
  aw_runTests :: "Node \<Rightarrow> Path \<Rightarrow> Error + (string \<times> Node)"

text \<open>The winner as a directory name.\<close>

definition winnerName :: "Winner \<Rightarrow> string" where
  "winnerName w = (case w of Agent Codex \<Rightarrow> ''codex'' | Agent Claude \<Rightarrow> ''claude'' | Neither \<Rightarrow> ''neither'')"

text \<open>The paths of the apply step.\<close>

definition applyLogPath :: "Path \<Rightarrow> Path" where
  "applyLogPath runDir = runDir @ [''final'', ''apply.log'']"

definition finalPatchPath :: "Path \<Rightarrow> Path" where
  "finalPatchPath runDir = runDir @ [''final'', ''final.patch'']"

definition sourceWorktreePath :: "Path \<Rightarrow> Path \<Rightarrow> TypedDecision \<Rightarrow> Config \<Rightarrow> Path" where
  "sourceWorktreePath rootDir runDir decision config =
     rootDir @ [''.orchestrator'', ''worktrees'', (case runDir of [] \<Rightarrow> [] | _ \<Rightarrow> last runDir)] @
     [if implementationMode config = Joint then ''driver'' else winnerName (winner decision)]"

text \<open>The log written when the guardrails refuse the patch.\<close>

definition blockedLog :: "string list \<Rightarrow> string" where
  "blockedLog violations =
     ''Guardrails blocked apply.\<newline>\<newline>'' @ joinWith ''\<newline>'' (map (\<lambda>v. ''- '' @ v) violations) @
     ''\<newline>''"

text \<open>The guardrail check of the apply step: the violations of the final patch.\<close>

definition finalPatchViolations ::
  "Path \<Rightarrow> Path \<Rightarrow> TypedDecision \<Rightarrow> bool \<Rightarrow> Config \<Rightarrow> string \<Rightarrow> string list" where
  "finalPatchViolations rootDir runDir decision isGit config patchText =
     evaluateGuardrails config
       (extractChangedFilesFromDiff patchText (pathString rootDir)
          (pathString (if isGit then rootDir
                       else sourceWorktreePath rootDir runDir decision config)))
       (summarizeDiff patchText)"

text \<open>The apply proper and the tests after it, reached when the guardrails let the patch
  through.\<close>

definition applyUnguarded ::
  "ApplyWorld \<Rightarrow> Path \<Rightarrow> Path \<Rightarrow> TypedDecision \<Rightarrow> bool \<Rightarrow> Config \<Rightarrow> Node \<Rightarrow> Error + Node" where
  "applyUnguarded world rootDir runDir decision isGit config fs =
     bindE
       (if isGit then
          (if \<not> existsSync fs (finalPatchPath runDir) then Inr None
           else
             bindE (aw_gitApply world fs rootDir (finalPatchPath runDir)) (\<lambda>(out, fs1).
             bindE (writeText fs1 (applyLogPath runDir) out) (\<lambda>fs2. Inr (Some fs2))))
        else
          (let sourceWorktree = sourceWorktreePath rootDir runDir decision config in
           if \<not> existsSync fs sourceWorktree
           then Inl (Thrown (''Worktree not found for apply: '' @ pathString sourceWorktree))
           else
             bindE (syncWorkspace sourceWorktree rootDir DEFAULT_EXCLUDES fs) (\<lambda>fs1.
             bindE (writeText fs1 (applyLogPath runDir)
                      (''Synced worktree into workspace (non-git mode).\<newline>Source: '' @
                       pathString sourceWorktree @ ''\<newline>Target: '' @ pathString rootDir @ ''\<newline>''))
               (\<lambda>fs2. Inr (Some fs2)))))
       (\<lambda>applied.
          case applied of
            None \<Rightarrow> Inr fs
          | Some fs2 \<Rightarrow>
              if testsEnabled config
              then bindE (aw_runTests world fs2 rootDir) (\<lambda>(out, fs3).
                     writeText fs3 (runDir @ [''final'', ''tests.log'']) out)
              else Inr fs2)"

text \<open>\<^verbatim>\<open>applyWinnerPatch\<close>.\<close>

definition applyWinnerPatch ::
  "ApplyWorld \<Rightarrow> Path \<Rightarrow> Path \<Rightarrow> TypedDecision \<Rightarrow> bool \<Rightarrow> Config \<Rightarrow> Node \<Rightarrow> Error + Node" where
  "applyWinnerPatch world rootDir runDir decision isGit config fs =
     (if implementationMode config \<noteq> Joint \<and> winner decision = Neither then Inr fs
      else if guardrailsEnabled config then
        bindE (readText fs (finalPatchPath runDir)) (\<lambda>patch.
          let patchText = (case patch of None \<Rightarrow> [] | Some t \<Rightarrow> t);
              violations = finalPatchViolations rootDir runDir decision isGit config patchText
          in if length violations > 0
             then writeText fs (applyLogPath runDir) (blockedLog violations)
             else applyUnguarded world rootDir runDir decision isGit config fs)
      else applyUnguarded world rootDir runDir decision isGit config fs)"

text \<open>The path is a directory.\<close>

definition isDirectory :: "Node \<Rightarrow> Path \<Rightarrow> bool" where
  "isDirectory fs p = (case lookup fs p of Some (Dir es) \<Rightarrow> True | _ \<Rightarrow> False)"

text \<open>The verdict of the dependency rule on the final patch, as the apply step computes
  it: a file of the dependency list is among the paths that \<^verbatim>\<open>extractChangedFilesFromDiff\<close>
  reads off the patch text. This is what the code detects, which need not be what the
  patch changes.\<close>

definition dependencyChangeDetected ::
  "Path \<Rightarrow> Path \<Rightarrow> TypedDecision \<Rightarrow> bool \<Rightarrow> Config \<Rightarrow> string \<Rightarrow> bool" where
  "dependencyChangeDetected rootDir runDir decision isGit config patchText =
     list_ex (\<lambda>f. f \<in> set (dependencyFileSet (policy config)))
       (extractChangedFilesFromDiff patchText (pathString rootDir)
          (pathString (if isGit then rootDir
                       else sourceWorktreePath rootDir runDir decision config)))"

section \<open>The joint implementation loop (runImplementationPhaseJoint)\<close>

text \<open>
  The collaborators of the loop, over an arbitrary type \<open>'t\<close> of worktree contents. Each
  of them is an external process or a file-system operation and may throw:
  \<^item> creating the driver worktree when it is absent (\<^verbatim>\<open>ensureWorktree\<close> or
    \<^verbatim>\<open>copyWorkspace\<close>);
  \<^item> the driver agent editing the driver worktree in a round;
  \<^item> the diff of a worktree against the pristine base (\<^verbatim>\<open>gitDiff\<close> in a repository,
    \<^verbatim>\<open>diffDirs\<close> otherwise);
  \<^item> the test command, giving its exit code (the flag tells the run after the navigator
    patch from the run before it);
  \<^item> cloning the driver worktree for the navigator (\<^verbatim>\<open>copyWorkspace\<close>);
  \<^item> the navigator agent editing its clone, giving its output as well;
  \<^item> the diff between the driver worktree and the clone (\<^verbatim>\<open>diffDirsBetween\<close>);
  \<^item> \<^verbatim>\<open>applyPatchToWorktree\<close>, giving whether the tool exited with 0;
  \<^item> \<^verbatim>\<open>gitStatusFiles\<close>.
\<close>

record 't JointWorld =
  w_acquire :: "Error + 't"
  w_driverAgent :: "int \<Rightarrow> AgentName \<Rightarrow> 't \<Rightarrow> Error + 't"
  w_diffBase :: "'t \<Rightarrow> Error + string"
  w_runTests :: "int \<Rightarrow> bool \<Rightarrow> 't \<Rightarrow> Error + (int \<times> 't)"
  w_copyWorkspace :: "int \<Rightarrow> 't \<Rightarrow> Error + 't"
  w_navigatorAgent :: "int \<Rightarrow> AgentName \<Rightarrow> 't \<Rightarrow> Error + ('t \<times> string)"
  w_diffDirsBetween :: "'t \<Rightarrow> 't \<Rightarrow> Error + string"
  w_applyPatch :: "'t \<Rightarrow> string \<Rightarrow> Error + (bool \<times> 't)"
  w_statusFiles :: "'t \<Rightarrow> string list"

text \<open>The branch taken at the end of a round, named after the transcript note it writes.\<close>

datatype RoundOutcome =
  StopNoNavigatorChanges | StopPatchFailed | SwapFailingTests | SwapNextRound | KeepRoles

text \<open>What a round leaves in the run directory and the transcript: its number, the roles
  it ran with, and the values the stop conditions looked at.\<close>

record JointRound =
  jr_round :: int
  jr_driver :: AgentName
  jr_navigator :: AgentName
  jr_navigatorPatch :: string
  jr_testExit :: "int option"
  jr_applied :: bool
  jr_outcome :: RoundOutcome

record 't JointState =
  js_driver :: AgentName
  js_navigator :: AgentName
  js_lastTestExit :: "int option"
  js_lastNavigatorNotes :: string
  js_lastApplyOk :: bool
  js_tree :: 't
  js_history :: "JointRound list"

definition implConfig :: "Config \<Rightarrow> ImplementationConfig" where
  "implConfig config =
     (case cfg_implementation config of
        Some i \<Rightarrow> i
      | None \<Rightarrow> \<lparr>impl_mode = None, impl_driver = None, impl_maxRounds = None,
                  impl_applyNavigatorPatch = None, impl_testsDuringLoop = None,
                  impl_swapDriverOnFail = None, impl_swapDriverEachRound = None\<rparr>)"

definition jointMaxRounds :: "Config \<Rightarrow> int" where
  "jointMaxRounds config = (case impl_maxRounds (implConfig config) of None \<Rightarrow> 1 | Some n \<Rightarrow> n)"

definition testsDuringLoop :: "Config \<Rightarrow> bool" where
  "testsDuringLoop config =
     (case impl_testsDuringLoop (implConfig config) of None \<Rightarrow> False | Some b \<Rightarrow> b)"

definition applyNavigatorPatch :: "Config \<Rightarrow> ApplyMode" where
  "applyNavigatorPatch config =
     (case impl_applyNavigatorPatch (implConfig config) of None \<Rightarrow> ApplyAuto | Some m \<Rightarrow> m)"

definition swapDriverOnFail :: "Config \<Rightarrow> bool" where
  "swapDriverOnFail config =
     (case impl_swapDriverOnFail (implConfig config) of None \<Rightarrow> False | Some b \<Rightarrow> b)"

definition swapDriverEachRound :: "Config \<Rightarrow> bool" where
  "swapDriverEachRound config =
     (case impl_swapDriverEachRound (implConfig config) of None \<Rightarrow> False | Some b \<Rightarrow> b)"

text \<open>The test command of a round, run only when \<^verbatim>\<open>testsDuringLoop\<close> and
  \<^verbatim>\<open>config.tests.enabled\<close> both hold; otherwise the exit code so far is kept.\<close>

definition loopTests ::
  "Config \<Rightarrow> 't JointWorld \<Rightarrow> int \<Rightarrow> bool \<Rightarrow> int option \<Rightarrow> 't \<Rightarrow> Error + (int option \<times> 't)" where
  "loopTests config world rnd afterPatch testExit tree =
     (if testsDuringLoop config \<and> testsEnabled config
      then bindE (w_runTests world rnd afterPatch tree) (\<lambda>(code, tree'). Inr (Some code, tree'))
      else Inr (testExit, tree))"

text \<open>The end of a round: the two stop conditions, then the two swaps.\<close>

definition roundOutcome :: "Config \<Rightarrow> int \<Rightarrow> string \<Rightarrow> int option \<Rightarrow> bool \<Rightarrow> RoundOutcome" where
  "roundOutcome config rnd navigatorPatch testExit lastApplyOk =
     (if \<not> truthyStr (trim navigatorPatch) \<and> (testExit = None \<or> testExit = Some 0)
        then StopNoNavigatorChanges
      else if \<not> lastApplyOk then StopPatchFailed
      else if swapDriverOnFail config \<and> testExit \<noteq> None \<and> testExit \<noteq> Some 0
        then SwapFailingTests
      else if swapDriverEachRound config \<and> rnd < jointMaxRounds config
        then SwapNextRound
      else KeepRoles)"

text \<open>One pass through the body of the \<^verbatim>\<open>for\<close> loop. The result is the state after the
  round and whether the loop was left by \<^verbatim>\<open>break\<close>.\<close>

definition jointRound ::
  "Config \<Rightarrow> 't JointWorld \<Rightarrow> int \<Rightarrow> 't JointState \<Rightarrow> Error + ('t JointState \<times> bool)" where
  "jointRound config world rnd st =
     bindE (w_driverAgent world rnd (js_driver st) (js_tree st)) (\<lambda>t1.
     bindE (w_diffBase world t1) (\<lambda>driverDiff.
     bindE (loopTests config world rnd False None t1) (\<lambda>(testExit1, t2).
     bindE (w_copyWorkspace world rnd t2) (\<lambda>clone.
     bindE (w_navigatorAgent world rnd (js_navigator st) clone) (\<lambda>(clone', notes).
     bindE (w_diffDirsBetween world t2 clone') (\<lambda>navigatorPatch.
     bindE (if applyNavigatorPatch config = ApplyAuto \<and> truthyStr (trim navigatorPatch)
            then w_applyPatch world t2 navigatorPatch else Inr (False, t2)) (\<lambda>(applied, t3).
     bindE (loopTests config world rnd True testExit1 t3) (\<lambda>(testExit, t4).
       let lastApplyOk = (applied \<or> \<not> truthyStr (trim navigatorPatch));
           outcome = roundOutcome config rnd navigatorPatch testExit lastApplyOk;
           swap = (outcome = SwapFailingTests \<or> outcome = SwapNextRound);
           driver' = (if swap then js_navigator st else js_driver st);
           navigator' = (if swap then otherAgent driver' else js_navigator st)
       in Inr (\<lparr>js_driver = driver', js_navigator = navigator',
                 js_lastTestExit = testExit,
                 js_lastNavigatorNotes = notes,
                 js_lastApplyOk = lastApplyOk,
                 js_tree = t4,
                 js_history = js_history st @
                   [\<lparr>jr_round = rnd, jr_driver = js_driver st,
                     jr_navigator = js_navigator st, jr_navigatorPatch = navigatorPatch,
                     jr_testExit = testExit, jr_applied = applied,
                     jr_outcome = outcome\<rparr>]\<rparr>,
               outcome = StopNoNavigatorChanges \<or> outcome = StopPatchFailed)))))))))"

text \<open>\<^verbatim>\<open>for (let round = 1; round <= maxRounds; round += 1)\<close>, entered at \<open>rnd\<close>.\<close>

function jointLoop ::
  "Config \<Rightarrow> 't JointWorld \<Rightarrow> int \<Rightarrow> 't JointState \<Rightarrow> Error + 't JointState" where
  "jointLoop config world rnd st =
     (if rnd \<le> jointMaxRounds config then
        (case jointRound config world rnd st of
           Inl e \<Rightarrow> Inl e
         | Inr (st', stop) \<Rightarrow>
             if stop then Inr st' else jointLoop config world (rnd + 1) st')
      else Inr st)"
  by pat_completeness auto
termination
  by (relation "measure (\<lambda>(config, world, rnd, st). nat (jointMaxRounds config + 1 - rnd))")
     auto

declare jointLoop.simps [simp del]

text \<open>The artifacts of the phase: \<^verbatim>\<open>final.patch\<close> and \<^verbatim>\<open>meta.json\<close>; the rounds are
  kept beside them for the statements below.\<close>

record JointMeta =
  meta_driver :: AgentName
  meta_navigator :: AgentName
  meta_rounds :: int
  meta_changedFiles :: "string list"
  meta_diffStats :: DiffStats

record 't JointArtifacts =
  ja_finalPatch :: string
  ja_meta :: JointMeta
  ja_rounds :: "JointRound list"
  ja_tree :: 't

definition runImplementationPhaseJoint ::
  "Config \<Rightarrow> TypedDecision \<Rightarrow> bool \<Rightarrow> 't JointWorld \<Rightarrow> Error + 't JointArtifacts" where
  "runImplementationPhaseJoint config decision isGit world =
     (let driver = resolveDriver (impl_driver (implConfig config)) decision;
          navigator = otherAgent driver
      in bindE (w_acquire world) (\<lambda>t0.
         bindE (jointLoop config world 1
                  \<lparr>js_driver = driver, js_navigator = navigator, js_lastTestExit = None,
                   js_lastNavigatorNotes = [], js_lastApplyOk = True, js_tree = t0,
                   js_history = []\<rparr>) (\<lambda>st.
         bindE (w_diffBase world (js_tree st)) (\<lambda>finalPatch.
           Inr \<lparr>ja_finalPatch = finalPatch,
                ja_meta = \<lparr>meta_driver = js_driver st, meta_navigator = js_navigator st,
                           meta_rounds = jointMaxRounds config,
                           meta_changedFiles = (if isGit then w_statusFiles world (js_tree st) else []),
                           meta_diffStats = summarizeDiff finalPatch\<rparr>,
                ja_rounds = js_history st,
                ja_tree = js_tree st\<rparr>))))"

text \<open>The conditions the end of a round looks at, read off its record.\<close>

definition navigatorPatchEmpty :: "JointRound \<Rightarrow> bool" where
  "navigatorPatchEmpty R = (\<not> truthyStr (trim (jr_navigatorPatch R)))"




definition roundStops :: "JointRound \<Rightarrow> bool" where
  "roundStops R = (jr_outcome R = StopNoNavigatorChanges \<or> jr_outcome R = StopPatchFailed)"

definition roundSwaps :: "JointRound \<Rightarrow> bool" where
  "roundSwaps R = (jr_outcome R = SwapFailingTests \<or> jr_outcome R = SwapNextRound)"


text \<open>The history a loop entered at round \<open>r\<close> with roles \<open>d\<close>, \<open>n\<close> can leave, and
  the roles it ends with.\<close>

fun jointChain ::
  "Config \<Rightarrow> int \<Rightarrow> AgentName \<Rightarrow> AgentName \<Rightarrow> JointRound list \<Rightarrow> AgentName \<Rightarrow> AgentName \<Rightarrow> bool" where
  "jointChain config r d n [] d' n' = (d' = d \<and> n' = n \<and> \<not> r \<le> jointMaxRounds config)"
| "jointChain config r d n (R # Rs) d' n' =
     (r \<le> jointMaxRounds config \<and> jr_round R = r \<and> jr_driver R = d \<and> jr_navigator R = n \<and>
      jr_outcome R = roundOutcome config r (jr_navigatorPatch R) (jr_testExit R)
                       (jr_applied R \<or> navigatorPatchEmpty R) \<and>
      (if roundStops R then Rs = [] \<and> d' = d \<and> n' = n
       else if roundSwaps R then jointChain config (r + 1) n (otherAgent n) Rs d' n'
       else jointChain config (r + 1) d n Rs d' n'))"

subsection \<open>An example run of the joint loop\<close>

text \<open>Worktree contents are a version number. In round 1 the navigator changes
  something, its patch applies and the tests fail; in round 2 the tests pass and the
  navigator changes nothing.\<close>

definition jointExampleWorld :: "nat JointWorld" where
  "jointExampleWorld =
     \<lparr>w_acquire = Inr 0,
      w_driverAgent = (\<lambda>r a t. Inr (t + 1)),
      w_diffBase = (\<lambda>t. Inr (''+version '' @ showNat t)),
      w_runTests = (\<lambda>r afterPatch t. Inr (if r = 1 then 1 else 0, t)),
      w_copyWorkspace = (\<lambda>r t. Inr t),
      w_navigatorAgent = (\<lambda>r a t. Inr (if r = 1 then t + 100 else t, ''reviewed'')),
      w_diffDirsBetween = (\<lambda>t t'. Inr (if t = t' then [] else ''+fix'')),
      w_applyPatch = (\<lambda>t p. Inr (True, t + 100)),
      w_statusFiles = (\<lambda>t. [])\<rparr>"

definition jointExampleConfig :: Config where
  "jointExampleConfig =
     \<lparr>cfg_decision = None, cfg_review = None,
      cfg_tests = Some \<lparr>cmd_enabled = Some True, cmd_command = ''npm'', cmd_args = None\<rparr>,
      cfg_implementation =
        Some \<lparr>impl_mode = Some Joint, impl_driver = None, impl_maxRounds = Some 3,
              impl_applyNavigatorPatch = None, impl_testsDuringLoop = Some True,
              impl_swapDriverOnFail = Some True, impl_swapDriverEachRound = None\<rparr>,
      cfg_converge = None, cfg_guardrails = None\<rparr>"

definition codexWins :: TypedDecision where
  "codexWins =
     \<lparr>mode = PreferCodex, winner = Agent Codex, rationale = ''Rule-based decision: prefer codex.'',
      judgeAgent = None, executionDriver = None\<rparr>"

definition jointExampleArtifacts :: "nat JointArtifacts" where
  "jointExampleArtifacts =
     \<lparr>ja_finalPatch = ''+version 102'',
      ja_meta = \<lparr>meta_driver = Claude, meta_navigator = Codex, meta_rounds = 3,
                 meta_changedFiles = [], meta_diffStats = \<lparr>ds_added = 1, ds_removed = 0\<rparr>\<rparr>,
      ja_rounds =
        [\<lparr>jr_round = 1, jr_driver = Codex, jr_navigator = Claude, jr_navigatorPatch = ''+fix'',
          jr_testExit = Some 1, jr_applied = True, jr_outcome = SwapFailingTests\<rparr>,
         \<lparr>jr_round = 2, jr_driver = Claude, jr_navigator = Codex, jr_navigatorPatch = [],
          jr_testExit = Some 0, jr_applied = False, jr_outcome = StopNoNavigatorChanges\<rparr>],
      ja_tree = 102\<rparr>"

text \<open>The number of rounds a finished phase ran.\<close>

definition roundsExecuted :: "'t JointArtifacts \<Rightarrow> int" where
  "roundsExecuted art = int (length (ja_rounds art))"

section \<open>The decision phase (runDecisionPhase)\<close>

text \<open>What the JavaScript runtime contributes: \<^verbatim>\<open>JSON.parse\<close>, and the conversion to
  a string of a number, an array or an object inside a template literal, which throws for
  an object that cannot be converted.\<close>

record JsRuntime =
  rt_parse :: "string \<Rightarrow> jsval option"
  rt_render :: "jsval \<Rightarrow> Error + string"

text \<open>\<^verbatim>\<open>`${v}`\<close>.\<close>

definition templ :: "JsRuntime \<Rightarrow> jsval \<Rightarrow> Error + string" where
  "templ rt v =
     (case v of
        JStr s \<Rightarrow> Inr s
      | JUndefined \<Rightarrow> Inr ''undefined''
      | JNull \<Rightarrow> Inr ''null''
      | JBool b \<Rightarrow> Inr (if b then ''true'' else ''false'')
      | _ \<Rightarrow> rt_render rt v)"

text \<open>\<^verbatim>\<open>a ?? b\<close>.\<close>

definition nullish :: "jsval \<Rightarrow> jsval \<Rightarrow> jsval" where
  "nullish a b = (if a = JUndefined \<or> a = JNull then b else a)"

text \<open>The judges: an agent is run as a judge in round \<open>0\<close> on the independent prompt and
  in a later round on the prompt that shows both outputs of the round before; the result
  is the text it leaves in its output file. Running an agent may throw. What an agent
  answers is up to the agent, so the answer is given per round and agent.\<close>

type_synonym DecisionWorld = "int \<Rightarrow> AgentName \<Rightarrow> Error + string"

type_synonym RawDecision = "(jsval, jsval) Decision"

text \<open>The outcome of the phase: the decision written to \<^verbatim>\<open>decision.json\<close>, the
  \<^verbatim>\<open>debate_round_N\<close> directories created, and the judge calls made, in order.\<close>

record DecisionResult =
  dr_decision :: RawDecision
  dr_roundDirs :: "string list"
  dr_calls :: "(int \<times> AgentName) list"

text \<open>\<^verbatim>\<open>codexPick?.winner && claudePick?.winner && codexPick.winner === claudePick.winner\<close>.\<close>

definition consensus :: "jsval \<Rightarrow> jsval \<Rightarrow> bool" where
  "consensus codexPick claudePick =
     (truthy (optProp codexPick ''winner'') \<and> truthy (optProp claudePick ''winner'') \<and>
      strictEq (optProp codexPick ''winner'') (optProp claudePick ''winner''))"

text \<open>The rationale of a consensus: \<open>after\<close> is \<^verbatim>\<open>initial judgment\<close> or
  \<^verbatim>\<open>debate round N\<close>.\<close>

definition consensusRationale :: "JsRuntime \<Rightarrow> string \<Rightarrow> jsval \<Rightarrow> jsval \<Rightarrow> Error + string" where
  "consensusRationale rt after codexPick claudePick =
     bindE (templ rt (optProp codexPick ''rationale'')) (\<lambda>rc.
     bindE (templ rt (optProp claudePick ''rationale'')) (\<lambda>rk.
       Inr (''Consensus after '' @ after @ ''. Codex: '' @ rc @ '' Claude: '' @ rk)))"

definition debateDecision :: "jsval \<Rightarrow> string \<Rightarrow> RawDecision" where
  "debateDecision w r =
     \<lparr>mode = Debate, winner = w, rationale = JStr r, judgeAgent = None, executionDriver = None\<rparr>"

text \<open>\<^verbatim>\<open>for (let round = 1; round <= rounds; round += 1)\<close> of the debate, entered at
  \<open>rnd\<close> with the outputs of the round before. The result is the consensus decision, if a
  round reached one, with the directories created and the calls made.\<close>

function debateLoop ::
  "JsRuntime \<Rightarrow> DecisionWorld \<Rightarrow> int \<Rightarrow> int \<Rightarrow> string \<times> string \<Rightarrow> string list \<Rightarrow> (int \<times> AgentName) list
   \<Rightarrow> Error + (RawDecision option \<times> string list \<times> (int \<times> AgentName) list)" where
  "debateLoop rt world rounds rnd priorOutputs dirs calls =
     (if rnd \<le> rounds then
        bindE (world rnd Codex) (\<lambda>outCodex.
        bindE (world rnd Claude) (\<lambda>outClaude.
          let dirs' = dirs @ [''debate_round_'' @ showInt rnd];
              calls' = calls @ [(rnd, Codex), (rnd, Claude)];
              codexPick = extractJson (rt_parse rt) outCodex;
              claudePick = extractJson (rt_parse rt) outClaude
          in if consensus codexPick claudePick
             then bindE (consensusRationale rt (''debate round '' @ showInt rnd) codexPick claudePick)
                    (\<lambda>r. Inr (Some (debateDecision (optProp codexPick ''winner'') r), dirs', calls'))
             else debateLoop rt world rounds (rnd + 1) (outCodex, outClaude) dirs' calls'))
      else Inr (None, dirs, calls))"
  by pat_completeness auto
termination
  by (relation "measure (\<lambda>(rt, world, rounds, rnd, prior, dirs, calls). nat (rounds + 1 - rnd))")
     auto

declare debateLoop.simps [simp del]

definition decisionConfig :: "Config \<Rightarrow> DecisionConfig" where
  "decisionConfig config =
     (case cfg_decision config of
        Some d \<Rightarrow> d
      | None \<Rightarrow> \<lparr>dec_mode = ModeNeither, dec_judgeAgent = None, dec_debateRounds = None\<rparr>)"

definition debateRounds :: "Config \<Rightarrow> int" where
  "debateRounds config = (case dec_debateRounds (decisionConfig config) of None \<Rightarrow> 1 | Some n \<Rightarrow> n)"

definition runDecisionPhase ::
  "JsRuntime \<Rightarrow> Config \<Rightarrow> DecisionMode option \<Rightarrow> DecisionWorld \<Rightarrow> Error + DecisionResult" where
  "runDecisionPhase rt config overrideMode world =
     (let m = (case overrideMode of Some m' \<Rightarrow> m' | None \<Rightarrow> dec_mode (decisionConfig config)) in
      if m = Judge then
        (let judge = (case dec_judgeAgent (decisionConfig config) of None \<Rightarrow> Codex | Some a \<Rightarrow> a) in
         bindE (world 0 judge) (\<lambda>judgeText.
           let parsed = extractJson (rt_parse rt) judgeText in
           Inr \<lparr>dr_decision =
                  \<lparr>mode = m,
                   winner = nullish (optProp parsed ''winner'') (JStr ''neither''),
                   rationale = nullish (optProp parsed ''rationale'')
                     (JStr ''Judge output was not parseable. Defaulting to neither.''),
                   judgeAgent = Some judge, executionDriver = None\<rparr>,
                dr_roundDirs = [], dr_calls = [(0, judge)]\<rparr>))
      else if m = Debate then
        bindE (world 0 Codex) (\<lambda>initialCodex.
        bindE (world 0 Claude) (\<lambda>initialClaude.
          let codexPick = extractJson (rt_parse rt) initialCodex;
              claudePick = extractJson (rt_parse rt) initialClaude
          in if consensus codexPick claudePick
             then bindE (consensusRationale rt ''initial judgment'' codexPick claudePick) (\<lambda>r.
                    Inr \<lparr>dr_decision = debateDecision (optProp codexPick ''winner'') r,
                         dr_roundDirs = [], dr_calls = [(0, Codex), (0, Claude)]\<rparr>)
             else
               bindE (debateLoop rt world (debateRounds config) 1 (initialCodex, initialClaude) []
                        [(0, Codex), (0, Claude)]) (\<lambda>(finalDecision, dirs, calls).
                 Inr \<lparr>dr_decision =
                        (case finalDecision of
                           Some d \<Rightarrow> d
                         | None \<Rightarrow> debateDecision (JStr ''neither'')
                                     ''Judges did not converge after debate rounds.''),
                      dr_roundDirs = dirs, dr_calls = calls\<rparr>)))
      else
        Inr \<lparr>dr_decision =
               \<lparr>mode = m,
                winner = JStr (if m = PreferCodex then ''codex''
                               else if m = PreferClaude then ''claude'' else ''neither''),
                rationale = JStr (if m = PreferCodex then ''Rule-based decision: prefer codex.''
                                  else if m = PreferClaude then ''Rule-based decision: prefer claude.''
                                  else ''Rule-based decision: neither.''),
                judgeAgent = None, executionDriver = None\<rparr>,
              dr_roundDirs = [], dr_calls = []\<rparr>)"

text \<open>The mode the phase runs in.\<close>

definition effectiveMode :: "Config \<Rightarrow> DecisionMode option \<Rightarrow> DecisionMode" where
  "effectiveMode config overrideMode =
     (case overrideMode of Some m' \<Rightarrow> m' | None \<Rightarrow> dec_mode (decisionConfig config))"


text \<open>The names a decision can give its winner.\<close>

definition winnerNames :: "string set" where
  "winnerNames = {''codex'', ''claude'', ''neither''}"

subsection \<open>Example runs of the debate\<close>

text \<open>\<^verbatim>\<open>JSON.parse\<close> on the JSON texts of the examples in this theory; every other text
  the examples hand to it is not JSON.\<close>

definition exampleParse :: "string \<Rightarrow> jsval option" where
  \<open>exampleParse = map_of
     [(''{"winner":"codex","rationale":"plan A is smaller"}'',
         JObj [(''winner'', JStr ''codex''), (''rationale'', JStr ''plan A is smaller'')]),
      (''{"winner":"claude","rationale":"plan B is safer"}'',
         JObj [(''winner'', JStr ''claude''), (''rationale'', JStr ''plan B is safer'')]),
      (''{"blockers":[{"id":"B-1","summary":"missing test"}]}'',
         JObj [(''blockers'', JArr [JObj [(''id'', JStr ''B-1''), (''summary'', JStr ''missing test'')]])]),
      (''{"blockers":[]}'', JObj [(''blockers'', JArr [])]),
      (''{"a":1}'', JObj [(''a'', JNum 1)]),
      (''0'', JNum 0)]\<close>

definition exampleRuntime :: JsRuntime where
  "exampleRuntime = \<lparr>rt_parse = exampleParse, rt_render = (\<lambda>v. Inr ''[object Object]'')\<rparr>"

definition debateConfig :: "int \<Rightarrow> Config" where
  "debateConfig n =
     \<lparr>cfg_decision = Some \<lparr>dec_mode = Debate, dec_judgeAgent = None, dec_debateRounds = Some n\<rparr>,
      cfg_review = None, cfg_tests = None, cfg_implementation = None, cfg_converge = None,
      cfg_guardrails = None\<rparr>"

text \<open>Two judges that both name codex, and two judges that each name themselves.\<close>

definition codexVote :: string where
  \<open>codexVote = ''{"winner":"codex","rationale":"plan A is smaller"}''\<close>


definition agreeingJudges :: DecisionWorld where
  "agreeingJudges = (\<lambda>r a. Inr codexVote)"


section \<open>Review summaries (parseReviewSummary, mergeReviewSummaries)\<close>

record Issue =
  is_id :: string
  is_summary :: string
  is_file :: "string option"
  is_suggested_fix :: "string option"

record ReviewSummary =
  rs_blockers :: "Issue list"
  rs_warnings :: "Issue list"
  rs_notes :: string

text \<open>\<^verbatim>\<open>v.toString()\<close>: a type error on \<^verbatim>\<open>null\<close> and \<^verbatim>\<open>undefined\<close>, the runtime's
  rendering for a number, an array or an object.\<close>

definition toStringMethod :: "JsRuntime \<Rightarrow> jsval \<Rightarrow> Error + string" where
  "toStringMethod rt v =
     (case v of
        JStr s \<Rightarrow> Inr s
      | JBool b \<Rightarrow> Inr (if b then ''true'' else ''false'')
      | JUndefined \<Rightarrow> Inl (Thrown ''TypeError'')
      | JNull \<Rightarrow> Inl (Thrown ''TypeError'')
      | _ \<Rightarrow> rt_render rt v)"

text \<open>\<^verbatim>\<open>it.key\<close>: a type error when \<open>it\<close> is \<^verbatim>\<open>null\<close>.\<close>

definition getProp :: "jsval \<Rightarrow> string \<Rightarrow> Error + jsval" where
  "getProp it key =
     (if it = JNull \<or> it = JUndefined then Inl (Thrown ''TypeError'') else Inr (optProp it key))"

text \<open>\<^verbatim>\<open>v?.toString()\<close>.\<close>

definition optToString :: "JsRuntime \<Rightarrow> jsval \<Rightarrow> Error + string option" where
  "optToString rt v =
     (if v = JNull \<or> v = JUndefined then Inr None
      else bindE (toStringMethod rt v) (\<lambda>s. Inr (Some s)))"

text \<open>The callback of \<^verbatim>\<open>map\<close> in \<^verbatim>\<open>normalize\<close>, for the item at index \<open>idx\<close>.\<close>

definition normalizeItem :: "JsRuntime \<Rightarrow> string \<Rightarrow> nat \<Rightarrow> jsval \<Rightarrow> Error + Issue" where
  "normalizeItem rt prefix idx it =
     bindE (getProp it ''id'') (\<lambda>rawId.
     bindE (toStringMethod rt (nullish rawId (JStr (prefix @ ''-'' @ showNat (idx + 1))))) (\<lambda>id'.
     bindE (getProp it ''summary'') (\<lambda>rawSummary.
     bindE (toStringMethod rt (nullish rawSummary (JStr []))) (\<lambda>summary.
     bindE (getProp it ''file'') (\<lambda>rawFile.
     bindE (optToString rt rawFile) (\<lambda>file.
     bindE (getProp it ''suggested_fix'') (\<lambda>rawFix.
     bindE (optToString rt rawFix) (\<lambda>fix.
       Inr \<lparr>is_id = id', is_summary = trim summary, is_file = file,
            is_suggested_fix = fix\<rparr>))))))))"

text \<open>\<^verbatim>\<open>Array.prototype.map\<close> with a callback that may throw, from index \<open>idx\<close> on.\<close>

fun mapItems :: "JsRuntime \<Rightarrow> string \<Rightarrow> nat \<Rightarrow> jsval list \<Rightarrow> Error + Issue list" where
  "mapItems rt prefix idx [] = Inr []"
| "mapItems rt prefix idx (it # its) =
     (case normalizeItem rt prefix idx it of
        Inl e \<Rightarrow> Inl e
      | Inr i \<Rightarrow>
          (case mapItems rt prefix (Suc idx) its of
             Inl e \<Rightarrow> Inl e
           | Inr is' \<Rightarrow> Inr (i # is')))"

text \<open>\<^verbatim>\<open>normalize(items, prefix)\<close>: \<^verbatim>\<open>items ?? []\<close>, then \<^verbatim>\<open>map\<close>, which only an array
  has, then the items with a summary.\<close>

definition normalize :: "JsRuntime \<Rightarrow> jsval \<Rightarrow> string \<Rightarrow> Error + Issue list" where
  "normalize rt items prefix =
     (case nullish items (JArr []) of
        JArr xs \<Rightarrow>
          bindE (mapItems rt prefix 0 xs) (\<lambda>mapped.
            Inr (filter (\<lambda>it. length (is_summary it) > 0) mapped))
      | _ \<Rightarrow> Inl (Thrown ''TypeError''))"

definition parseReviewSummary :: "JsRuntime \<Rightarrow> string \<Rightarrow> Error + ReviewSummary option" where
  "parseReviewSummary rt content =
     (let parsed = extractJson (rt_parse rt) content in
      if \<not> truthy parsed then Inr None
      else
        bindE (normalize rt (optProp parsed ''blockers'') ''B'') (\<lambda>blockers.
        bindE (normalize rt (optProp parsed ''warnings'') ''W'') (\<lambda>warnings.
        bindE (toStringMethod rt (nullish (optProp parsed ''notes'') (JStr []))) (\<lambda>notes.
          Inr (Some \<lparr>rs_blockers = blockers, rs_warnings = warnings, rs_notes = notes\<rparr>)))))"

text \<open>
  \<^verbatim>\<open>text.replace(/\s+\n/g, "\n")\<close>. Within a maximal run of white space the expression
  matches from the start of the run to its last line feed, when that line feed is not
  the first character of the run; what follows the last line feed stays.
\<close>

definition collapseRun :: "string \<Rightarrow> string" where
  "collapseRun run =
     (if run \<noteq> [] \<and> CHR 0x0A \<in> set (tl run)
      then CHR 0x0A # rev (takeWhile (\<lambda>c. c \<noteq> CHR 0x0A) (rev run))
      else run)"

function collapseSpaceBeforeNewline :: "string \<Rightarrow> string" where
  "collapseSpaceBeforeNewline [] = []"
| "collapseSpaceBeforeNewline (c # cs) =
     (if isSpace c
      then collapseRun (takeWhile isSpace (c # cs)) @
           collapseSpaceBeforeNewline (dropWhile isSpace (c # cs))
      else c # collapseSpaceBeforeNewline cs)"
  by pat_completeness auto
termination
  by (relation "measure length") (auto simp: less_Suc_eq_le length_dropWhile_le)

text \<open>\<^verbatim>\<open>truncateInline\<close>.\<close>

definition truncateInline :: "string \<Rightarrow> int \<Rightarrow> string" where
  "truncateInline content maxChars =
     (let normalized = trim (collapseSpaceBeforeNewline content) in
      if maxChars \<le> 0 then []
      else if int (length normalized) \<le> maxChars then normalized
      else take (nat maxChars) normalized @ '' '')"

text \<open>\<^verbatim>\<open>mergeReviewSummaries\<close>: blockers and warnings are concatenated, the notes that
  are not blank are trimmed and joined.\<close>

definition mergeReviewSummaries :: "ReviewSummary list \<Rightarrow> ReviewSummary" where
  "mergeReviewSummaries summaries =
     \<lparr>rs_blockers = concat (map rs_blockers summaries),
      rs_warnings = concat (map rs_warnings summaries),
      rs_notes =
        truncateInline
          (joinWith '' | '' (map (\<lambda>s. trim (rs_notes s))
                               (filter (\<lambda>s. truthyStr (trim (rs_notes s))) summaries)))
          240\<rparr>"

text \<open>\<^verbatim>\<open>[x].filter(Boolean)\<close> and the loop of \<^verbatim>\<open>readReviewSummaries\<close>: the summaries that
  are not \<^verbatim>\<open>null\<close>.\<close>

fun present :: "'a option list \<Rightarrow> 'a list" where
  "present [] = []"
| "present (None # xs) = present xs"
| "present (Some x # xs) = x # present xs"

text \<open>A list of steps that may throw, run in order.\<close>

fun sequenceE :: "('e + 'a) list \<Rightarrow> 'e + 'a list" where
  "sequenceE [] = Inr []"
| "sequenceE (m # ms) =
     (case m of
        Inl e \<Rightarrow> Inl e
      | Inr x \<Rightarrow> (case sequenceE ms of Inl e \<Rightarrow> Inl e | Inr xs \<Rightarrow> Inr (x # xs)))"

section \<open>The convergence loop (runConvergePhase)\<close>

text \<open>
  The collaborators of the phase, over the type \<open>'t\<close> of worktree contents:
  \<^item> the canonical worktree, if it exists;
  \<^item> the driver recorded in the \<^verbatim>\<open>meta.json\<close> of the joint phase, if that file is
    there, parses and names one;
  \<^item> the review files \<^verbatim>\<open>review/<agent>.md\<close> (the empty text when missing);
  \<^item> the diff of the worktree against the base, which may throw;
  \<^item> the test command (round \<open>0\<close> is the run before the loop);
  \<^item> the fixer agent editing the worktree in a round;
  \<^item> the critic agent of a round, giving the text of \<^verbatim>\<open>critic.json\<close> as well.
\<close>

record 't ConvergeWorld =
  cw_worktree :: "'t option"
  cw_metaDriver :: "AgentName option"
  cw_reviewText :: "AgentName \<Rightarrow> string"
  cw_diffBase :: "'t \<Rightarrow> Error + string"
  cw_runTests :: "int \<Rightarrow> 't \<Rightarrow> Error + (int \<times> 't)"
  cw_fixerAgent :: "int \<Rightarrow> AgentName \<Rightarrow> 't \<Rightarrow> Error + 't"
  cw_criticAgent :: "int \<Rightarrow> AgentName \<Rightarrow> 't \<Rightarrow> Error + ('t \<times> string)"

text \<open>What a round leaves behind: its number, its roles, the critic's text, the review
  computed from it, the exit code of the tests so far, and whether the loop stopped
  there.\<close>

record ConvergeRound =
  cr_round :: int
  cr_fixer :: AgentName
  cr_critic :: AgentName
  cr_criticText :: string
  cr_review :: ReviewSummary
  cr_testExit :: "int option"
  cr_complete :: bool

record 't ConvergeState =
  cs_fixer :: AgentName
  cs_critic :: AgentName
  cs_finalReview :: ReviewSummary
  cs_currentDiff :: string
  cs_lastTestExit :: "int option"
  cs_tree :: 't
  cs_history :: "ConvergeRound list"

definition convergeConfig :: "Config \<Rightarrow> ConvergeConfig" where
  "convergeConfig config =
     (case cfg_converge config of
        Some c \<Rightarrow> c
      | None \<Rightarrow> \<lparr>conv_enabled = None, conv_maxRounds = None\<rparr>)"

text \<open>\<^verbatim>\<open>Math.max(1, config.converge.maxRounds ?? 1)\<close>.\<close>

definition convergeMaxRounds :: "Config \<Rightarrow> int" where
  "convergeMaxRounds config =
     max 1 (case conv_maxRounds (convergeConfig config) of None \<Rightarrow> 1 | Some n \<Rightarrow> n)"

text \<open>The test command, run only when \<^verbatim>\<open>config.tests.enabled\<close>.\<close>

definition convergeTests ::
  "Config \<Rightarrow> 't ConvergeWorld \<Rightarrow> int \<Rightarrow> int option \<Rightarrow> 't \<Rightarrow> Error + (int option \<times> 't)" where
  "convergeTests config world rnd lastTestExit tree =
     (if testsEnabled config
      then bindE (cw_runTests world rnd tree) (\<lambda>(code, tree'). Inr (Some code, tree'))
      else Inr (lastTestExit, tree))"

text \<open>One pass through the body of the loop; the flag tells whether it was left by
  \<^verbatim>\<open>break\<close>.\<close>

definition convergeRound ::
  "JsRuntime \<Rightarrow> Config \<Rightarrow> 't ConvergeWorld \<Rightarrow> int \<Rightarrow> 't ConvergeState
   \<Rightarrow> Error + ('t ConvergeState \<times> bool)" where
  "convergeRound rt config world rnd st =
     bindE (cw_fixerAgent world rnd (cs_fixer st) (cs_tree st)) (\<lambda>t1.
     bindE (cw_diffBase world t1) (\<lambda>currentDiff.
     bindE (convergeTests config world rnd (cs_lastTestExit st) t1) (\<lambda>(lastTestExit, t2).
     bindE (cw_criticAgent world rnd (cs_critic st) t2) (\<lambda>(t3, criticText).
     bindE (parseReviewSummary rt criticText) (\<lambda>parsed.
       let finalReview = mergeReviewSummaries (present [parsed]);
           okByReview = (length (rs_blockers finalReview) = 0);
           okByTests = (lastTestExit = None \<or> lastTestExit = Some 0);
           complete = (okByReview \<and> okByTests);
           swap = (\<not> complete \<and> rnd < convergeMaxRounds config);
           fixer' = (if swap then cs_critic st else cs_fixer st);
           critic' = (if swap then otherAgent fixer' else cs_critic st)
       in Inr (\<lparr>cs_fixer = fixer', cs_critic = critic', cs_finalReview = finalReview,
                 cs_currentDiff = currentDiff, cs_lastTestExit = lastTestExit, cs_tree = t3,
                 cs_history = cs_history st @
                   [\<lparr>cr_round = rnd, cr_fixer = cs_fixer st, cr_critic = cs_critic st,
                     cr_criticText = criticText, cr_review = finalReview,
                     cr_testExit = lastTestExit, cr_complete = complete\<rparr>]\<rparr>,
               complete))))))"

text \<open>\<^verbatim>\<open>for (let round = 1; round <= maxRounds; round += 1)\<close>, entered at \<open>rnd\<close>.\<close>

function convergeLoop ::
  "JsRuntime \<Rightarrow> Config \<Rightarrow> 't ConvergeWorld \<Rightarrow> int \<Rightarrow> 't ConvergeState \<Rightarrow> Error + 't ConvergeState" where
  "convergeLoop rt config world rnd st =
     (if rnd \<le> convergeMaxRounds config then
        (case convergeRound rt config world rnd st of
           Inl e \<Rightarrow> Inl e
         | Inr (st', stop) \<Rightarrow>
             if stop then Inr st' else convergeLoop rt config world (rnd + 1) st')
      else Inr st)"
  by pat_completeness auto
termination
  by (relation "measure (\<lambda>(rt, config, world, rnd, st). nat (convergeMaxRounds config + 1 - rnd))")
     auto

declare convergeLoop.simps [simp del]

text \<open>The phase. \<open>None\<close> is a return before the loop: convergence or review not enabled,
  no winner to work on, no worktree, or nothing to converge on.\<close>

record 't ConvergeArtifacts =
  ca_finalPatch :: string
  ca_final :: ReviewSummary
  ca_diffStats :: DiffStats
  ca_rounds :: "ConvergeRound list"
  ca_fixer :: AgentName
  ca_critic :: AgentName
  ca_tree :: 't

definition reviewers :: "Config \<Rightarrow> AgentName list" where
  "reviewers config =
     (case cfg_review config of
        None \<Rightarrow> []
      | Some r \<Rightarrow>
          (case review_reviewer r of
             ReviewBoth \<Rightarrow> [Codex, Claude]
           | ReviewCodex \<Rightarrow> [Codex]
           | ReviewClaude \<Rightarrow> [Claude]))"

definition readReviewSummaries ::
  "JsRuntime \<Rightarrow> (AgentName \<Rightarrow> string) \<Rightarrow> AgentName list \<Rightarrow> Error + ReviewSummary" where
  "readReviewSummaries rt reviewText rs =
     bindE (sequenceE (map (\<lambda>reviewer. parseReviewSummary rt (reviewText reviewer)) rs))
       (\<lambda>parsed. Inr (mergeReviewSummaries (present parsed)))"

text \<open>Who implemented, and so fixes first: in joint mode the driver that \<^verbatim>\<open>meta.json\<close>
  records, or else the resolved driver; in parallel mode the winner (which is an agent
  there, the phase having returned for \<^verbatim>\<open>neither\<close>).\<close>

definition initialFixer :: "Config \<Rightarrow> TypedDecision \<Rightarrow> AgentName option \<Rightarrow> AgentName" where
  "initialFixer config decision metaDriver =
     (if implementationMode config = Joint
      then (case metaDriver of
              Some d \<Rightarrow> d
            | None \<Rightarrow> resolveDriver
                        (case cfg_implementation config of
                           None \<Rightarrow> None | Some i \<Rightarrow> impl_driver i)
                        decision)
      else (case winner decision of Agent a \<Rightarrow> a | Neither \<Rightarrow> Codex))"

definition runConvergePhase ::
  "JsRuntime \<Rightarrow> Config \<Rightarrow> TypedDecision \<Rightarrow> 't ConvergeWorld \<Rightarrow> Error + 't ConvergeArtifacts option" where
  "runConvergePhase rt config decision world =
     (if conv_enabled (convergeConfig config) \<noteq> Some True then Inr None
      else if \<not> (case cfg_review config of None \<Rightarrow> False | Some r \<Rightarrow> review_enabled r) then Inr None
      else if implementationMode config \<noteq> Joint \<and> winner decision = Neither then Inr None
      else
        (case cw_worktree world of
           None \<Rightarrow> Inr None
         | Some t0 \<Rightarrow>
             (let fixer = initialFixer config decision (cw_metaDriver world);
                  critic = otherAgent fixer
              in bindE (readReviewSummaries rt (cw_reviewText world) (reviewers config)) (\<lambda>initialReview.
                 bindE (cw_diffBase world t0) (\<lambda>currentDiff.
                 bindE (convergeTests config world 0 None t0) (\<lambda>(lastTestExit, t1).
                   let needsConverge =
                         (length (rs_blockers initialReview) > 0 \<or>
                          (lastTestExit \<noteq> None \<and> lastTestExit \<noteq> Some 0))
                   in if \<not> needsConverge then Inr None
                      else
                        bindE (convergeLoop rt config world 1
                                 \<lparr>cs_fixer = fixer, cs_critic = critic,
                                  cs_finalReview = initialReview, cs_currentDiff = currentDiff,
                                  cs_lastTestExit = lastTestExit, cs_tree = t1,
                                  cs_history = []\<rparr>) (\<lambda>st.
                          Inr (Some \<lparr>ca_finalPatch = cs_currentDiff st,
                                     ca_final = cs_finalReview st,
                                     ca_diffStats = summarizeDiff (cs_currentDiff st),
                                     ca_rounds = cs_history st,
                                     ca_fixer = cs_fixer st, ca_critic = cs_critic st,
                                     ca_tree = cs_tree st\<rparr>))))))))"

text \<open>The review a round computes from the critic's text alone, when parsing does not
  throw.\<close>

definition reviewOfText :: "JsRuntime \<Rightarrow> string \<Rightarrow> ReviewSummary option" where
  "reviewOfText rt content =
     (case parseReviewSummary rt content of
        Inl e \<Rightarrow> None
      | Inr parsed \<Rightarrow> Some (mergeReviewSummaries (present [parsed])))"

text \<open>The stop condition of a round, read off its record: no blockers in its review, and
  tests disabled or passing.\<close>

definition roundConverged :: "ConvergeRound \<Rightarrow> bool" where
  "roundConverged R =
     (rs_blockers (cr_review R) = [] \<and> (cr_testExit R = None \<or> cr_testExit R = Some 0))"


text \<open>The history a loop entered at round \<open>r\<close> with roles \<open>f\<close>, \<open>c\<close> and review \<open>v\<close>
  can leave, and the roles and review it ends with.\<close>

fun convergeChain ::
  "JsRuntime \<Rightarrow> Config \<Rightarrow> int \<Rightarrow> AgentName \<Rightarrow> AgentName \<Rightarrow> ReviewSummary \<Rightarrow> ConvergeRound list
   \<Rightarrow> AgentName \<Rightarrow> AgentName \<Rightarrow> ReviewSummary \<Rightarrow> bool" where
  "convergeChain rt config r f c v [] f' c' v' =
     (f' = f \<and> c' = c \<and> v' = v \<and> \<not> r \<le> convergeMaxRounds config)"
| "convergeChain rt config r f c v (R # Rs) f' c' v' =
     (r \<le> convergeMaxRounds config \<and> cr_round R = r \<and> cr_fixer R = f \<and> cr_critic R = c \<and>
      reviewOfText rt (cr_criticText R) = Some (cr_review R) \<and>
      cr_complete R = roundConverged R \<and>
      (if cr_complete R then Rs = [] \<and> f' = f \<and> c' = c \<and> v' = cr_review R
       else if r < convergeMaxRounds config
         then convergeChain rt config (r + 1) c (otherAgent c) (cr_review R) Rs f' c' v'
       else convergeChain rt config (r + 1) f c (cr_review R) Rs f' c' v'))"

subsection \<open>Example runs of the convergence loop\<close>

text \<open>The initial review holds one blocker. The critic of every round reports no
  blockers, and the tests pass. Worktree contents are a version number.\<close>

definition convergeExampleWorld :: "nat ConvergeWorld" where
  \<open>convergeExampleWorld =
     \<lparr>cw_worktree = Some 0,
      cw_metaDriver = None,
      cw_reviewText = (\<lambda>a. ''{"blockers":[{"id":"B-1","summary":"missing test"}]}''),
      cw_diffBase = (\<lambda>t. Inr (''+version '' @ showNat t)),
      cw_runTests = (\<lambda>r t. Inr (0, t)),
      cw_fixerAgent = (\<lambda>r a t. Inr (t + 1)),
      cw_criticAgent = (\<lambda>r a t. Inr (t, ''{"blockers":[]}''))\<rparr>\<close>

text \<open>The critic keeps its blocker in every round.\<close>

definition stubbornCriticWorld :: "nat ConvergeWorld" where
  \<open>stubbornCriticWorld =
     convergeExampleWorld
       \<lparr>cw_criticAgent := (\<lambda>r a t. Inr (t, ''{"blockers":[{"id":"B-1","summary":"missing test"}]}''))\<rparr>\<close>

definition convergeExampleConfig :: "int \<Rightarrow> Config" where
  "convergeExampleConfig n =
     \<lparr>cfg_decision = None,
      cfg_review = Some \<lparr>review_enabled = True, review_reviewer = ReviewBoth\<rparr>,
      cfg_tests = None, cfg_implementation = None,
      cfg_converge = Some \<lparr>conv_enabled = Some True, conv_maxRounds = Some n\<rparr>,
      cfg_guardrails = None\<rparr>"



section \<open>The roles of a run\<close>

text \<open>The role pairs a finished phase went through: those of each round, then those it
  ended with. A phase that threw or did not run its loop shows none.\<close>

definition jointRoles :: "Error + 't JointArtifacts \<Rightarrow> (AgentName \<times> AgentName) list" where
  "jointRoles res =
     (case res of
        Inl e \<Rightarrow> []
      | Inr art \<Rightarrow>
          map (\<lambda>R. (jr_driver R, jr_navigator R)) (ja_rounds art) @
          [(meta_driver (ja_meta art), meta_navigator (ja_meta art))])"

definition convergeRoles :: "Error + 't ConvergeArtifacts option \<Rightarrow> (AgentName \<times> AgentName) list" where
  "convergeRoles res =
     (case res of
        Inr (Some art) \<Rightarrow>
          map (\<lambda>R. (cr_fixer R, cr_critic R)) (ca_rounds art) @ [(ca_fixer art, ca_critic art)]
      | _ \<Rightarrow> [])"

section \<open>Example runs of the apply step\<close>

text \<open>
  The scenario of the guardrails test: a workspace without version control, joint
  implementation, dependency protection for \<^verbatim>\<open>package.json\<close>. The driver has edited the
  manifest in its worktree, and the final patch is what \<^verbatim>\<open>diffDirs\<close> got from
  \<^verbatim>\<open>diff -ruN --exclude=... <root> <worktree>\<close>.
\<close>

definition guardrailsTestConfig :: Config where
  "guardrailsTestConfig =
     \<lparr>cfg_decision = Some \<lparr>dec_mode = PreferCodex, dec_judgeAgent = None, dec_debateRounds = None\<rparr>,
      cfg_review = Some \<lparr>review_enabled = False, review_reviewer = ReviewBoth\<rparr>,
      cfg_tests = Some \<lparr>cmd_enabled = Some False, cmd_command = ''npm'', cmd_args = Some [''test'']\<rparr>,
      cfg_implementation =
        Some \<lparr>impl_mode = Some Joint, impl_driver = Some Auto, impl_maxRounds = Some 1,
              impl_applyNavigatorPatch = Some ApplyManual, impl_testsDuringLoop = Some False,
              impl_swapDriverOnFail = Some False, impl_swapDriverEachRound = Some False\<rparr>,
      cfg_converge = Some \<lparr>conv_enabled = Some False, conv_maxRounds = None\<rparr>,
      cfg_guardrails =
        Some \<lparr>g_enabled = Some True, g_maxFilesChanged = None, g_maxLinesAdded = None,
              g_maxLinesRemoved = None, g_forbiddenPaths = None,
              g_forbidDependencyChanges = Some True,
              g_dependencyFiles = Some [''package.json'']\<rparr>\<rparr>"

text \<open>The run directory and the driver's worktree of run \<^verbatim>\<open>run-1\<close> in a workspace.\<close>

definition exampleRunDir :: "Path \<Rightarrow> Path" where
  "exampleRunDir rootDir =
     rootDir @ [''.orchestrator'', ''sessions'', ''session-guardrails'', ''runs'', ''run-1'']"

definition exampleDriverWorktree :: "Path \<Rightarrow> Path" where
  "exampleDriverWorktree rootDir = rootDir @ [''.orchestrator'', ''worktrees'', ''run-1'', ''driver'']"

text \<open>A string between two quotation marks.\<close>

definition quoted :: "char \<Rightarrow> string \<Rightarrow> string" where
  "quoted q s = q # s @ [q]"

text \<open>
  The output of GNU diff 3.10 for a manifest \<^verbatim>\<open>{}\<close> edited to \<^verbatim>\<open>{ }\<close>: the command line
  with its options in single quotes, then the two headers with their time stamps, then
  the hunk. The two file names are given as diff prints them.
\<close>

definition manifestDiff :: "string \<Rightarrow> string \<Rightarrow> string" where
  "manifestDiff left right =
     ''diff -ruN '' @
     joinWith '' ''
       (map (quoted (CHR 0x27))
          [''--exclude=.git'', ''--exclude=.orchestrator'', ''--exclude=node_modules'',
           ''--exclude=dist'', ''--exclude=build'']) @
     '' '' @ left @ '' '' @ right @ ''\<newline>'' @
     ''--- '' @ left @ [CHR 0x09] @ ''2026-01-01 10:00:00.000000000 +0000\<newline>'' @
     ''+++ '' @ right @ [CHR 0x09] @ ''2026-01-01 10:00:05.000000000 +0000\<newline>'' @
     ''@@ -1 +1 @@\<newline>-{}\<newline>+{ }\<newline>''"

text \<open>A workspace directory named \<open>name\<close> with the manifest, the edited manifest in the
  driver's worktree, and the final patch in the run directory.\<close>

definition manifestWorkspace :: "string \<Rightarrow> string \<Rightarrow> Node" where
  "manifestWorkspace name patch =
     Dir [(name,
           Dir [(''package.json'', File ''{}\<newline>''),
                (''.orchestrator'',
                 Dir [(''sessions'',
                       Dir [(''session-guardrails'',
                             Dir [(''runs'',
                                   Dir [(''run-1'',
                                         Dir [(''final'',
                                               Dir [(''final.patch'', File patch)])])])])]),
                      (''worktrees'',
                       Dir [(''run-1'',
                             Dir [(''driver'',
                                   Dir [(''package.json'', File ''{ }\<newline>'')])])])])])]"

text \<open>The workspace \<^verbatim>\<open>/work\<close>: diff prints the file names as they are.\<close>

definition plainPatch :: string where
  "plainPatch =
     manifestDiff ''/work/package.json''
       ''/work/.orchestrator/worktrees/run-1/driver/package.json''"

definition plainWorkspace :: Node where
  "plainWorkspace = manifestWorkspace ''work'' plainPatch"

text \<open>The workspace \<^verbatim>\<open>/my work\<close>: diff prints a file name that holds a space between
  double quotes.\<close>

definition spacedRoot :: Path where
  "spacedRoot = [''my work'']"

definition spacedPatch :: string where
  "spacedPatch =
     manifestDiff (quoted (CHR 0x22) ''/my work/package.json'')
       (quoted (CHR 0x22) ''/my work/.orchestrator/worktrees/run-1/driver/package.json'')"

definition spacedWorkspace :: Node where
  "spacedWorkspace = manifestWorkspace ''my work'' spacedPatch"

text \<open>The apply log of a synchronisation.\<close>

definition syncedLog :: "Path \<Rightarrow> Path \<Rightarrow> string" where
  "syncedLog sourceWorktree rootDir =
     ''Synced worktree into workspace (non-git mode).\<newline>Source: '' @ pathString sourceWorktree @
     ''\<newline>Target: '' @ pathString rootDir @ ''\<newline>''"

text \<open>
  The workspace \<^verbatim>\<open>/work\<close> with a lock file of the builtin dependency list, \<^verbatim>\<open>bun.lockb\<close>,
  which is binary: for it diff prints one line and no header.
\<close>

definition lockfileTestConfig :: Config where
  "lockfileTestConfig =
     guardrailsTestConfig
       \<lparr>cfg_guardrails :=
          Some \<lparr>g_enabled = Some True, g_maxFilesChanged = None, g_maxLinesAdded = None,
                g_maxLinesRemoved = None, g_forbiddenPaths = None,
                g_forbidDependencyChanges = Some True, g_dependencyFiles = None\<rparr>\<rparr>"

definition lockfilePatch :: string where
  "lockfilePatch =
     ''Binary files /work/bun.lockb and '' @
     ''/work/.orchestrator/worktrees/run-1/driver/bun.lockb differ\<newline>''"

definition lockfileWorkspace :: Node where
  "lockfileWorkspace =
     Dir [(''work'',
           Dir [(''bun.lockb'', File [CHR 0x00, CHR 0x01]),
                (''.orchestrator'',
                 Dir [(''sessions'',
                       Dir [(''session-guardrails'',
                             Dir [(''runs'',
                                   Dir [(''run-1'',
                                         Dir [(''final'',
                                               Dir [(''final.patch'', File lockfilePatch)])])])])]),
                      (''worktrees'',
                       Dir [(''run-1'',
                             Dir [(''driver'',
                                   Dir [(''bun.lockb'', File [CHR 0x00, CHR 0x02])])])])])])]"

text \<open>No version control, and a test command that prints nothing.\<close>

definition applyExampleWorld :: ApplyWorld where
  "applyExampleWorld =
     \<lparr>aw_gitApply = (\<lambda>fs rootDir patchPath. Inl (Thrown ''spawn git ENOENT'')),
      aw_runTests = (\<lambda>fs rootDir. Inr ([], fs))\<rparr>"

text \<open>The workspace \<^verbatim>\<open>/my work\<close> with the edited manifest copied over the original and the
  log of the synchronisation in the run directory.\<close>

definition spacedWorkspaceSynced :: Node where
  "spacedWorkspaceSynced =
     Dir [(''my work'',
           Dir [(''package.json'', File ''{ }\<newline>''),
                (''.orchestrator'',
                 Dir [(''sessions'',
                       Dir [(''session-guardrails'',
                             Dir [(''runs'',
                                   Dir [(''run-1'',
                                         Dir [(''final'',
                                               Dir [(''final.patch'', File spacedPatch),
                                                    (''apply.log'',
                                                     File (syncedLog (exampleDriverWorktree spacedRoot)
                                                             spacedRoot))])])])])]),
                      (''worktrees'',
                       Dir [(''run-1'',
                             Dir [(''driver'',
                                   Dir [(''package.json'', File ''{ }\<newline>'')])])])])])]"

section \<open>Steps that may throw\<close>

lemma bindE_Inr_iff: "bindE m f = Inr y \<longleftrightarrow> (\<exists>x. m = Inr x \<and> f x = Inr y)"
  by (cases m) (simp_all add: bindE_def)

lemma bindE_simps [simp]: "bindE (Inl e) f = Inl e" "bindE (Inr x) f = f x"
  by (simp_all add: bindE_def)


section \<open>Properties of extractJson\<close>

lemma lastIndexOf_append:
  assumes "x \<in> set w"
  shows "lastIndexOf x (a @ w) = int (length a) + lastIndexOf x w"
proof -
  have "takeWhile (\<lambda>c. c \<noteq> x) (rev w @ rev a) = takeWhile (\<lambda>c. c \<noteq> x) (rev w)"
    using assms by (intro takeWhile_append1 [of x]) simp_all
  moreover have "length (takeWhile (\<lambda>c. c \<noteq> x) (rev w)) \<le> length w"
    using length_takeWhile_le [of _ "rev w"] by simp
  ultimately show ?thesis
    using assms by (simp add: lastIndexOf_def)
qed

lemma lastIndexOf_before:
  assumes "x \<notin> set w" and "x \<in> set a"
  shows "lastIndexOf x (a @ w) < int (length a)"
proof -
  have "takeWhile (\<lambda>c. c \<noteq> x) (rev w @ rev a) = rev w @ takeWhile (\<lambda>c. c \<noteq> x) (rev a)"
    using assms(1) by (intro takeWhile_append2) auto
  then show ?thesis
    using assms by (simp add: lastIndexOf_def)
qed

lemma lastIndexOf_pos:
  assumes "x \<in> set b"
  shows "0 < lastIndexOf x (y # b)"
proof -
  have "takeWhile (\<lambda>c. c \<noteq> x) (rev b @ [y]) = takeWhile (\<lambda>c. c \<noteq> x) (rev b)"
    using assms by (intro takeWhile_append1 [of x]) simp_all
  moreover have "dropWhile (\<lambda>c. c \<noteq> x) (rev b) \<noteq> []"
    using assms by (simp add: dropWhile_eq_Nil_conv)
  then have "length (takeWhile (\<lambda>c. c \<noteq> x) (rev b)) < length (rev b)"
    by (metis length_append takeWhile_dropWhile_id less_add_same_cancel1 length_greater_0_conv)
  ultimately show ?thesis
    using assms by (simp add: lastIndexOf_def)
qed

lemma take_to_last:
  assumes "x \<in> set w"
  shows "take (nat (lastIndexOf x w + 1)) w = rev (dropWhile (\<lambda>c. c \<noteq> x) (rev w))"
proof -
  let ?t = "takeWhile (\<lambda>c. c \<noteq> x) (rev w)" and ?d = "dropWhile (\<lambda>c. c \<noteq> x) (rev w)"
  have "rev w = ?t @ ?d" by simp
  then have w: "w = rev ?d @ rev ?t" by (metis rev_append rev_rev_ident)
  have "length ?t + length ?d = length w"
    by (metis length_append length_rev takeWhile_dropWhile_id)
  then have "nat (lastIndexOf x w + 1) = length (rev ?d)"
    using assms by (simp add: lastIndexOf_def)
  then show ?thesis
    using w by (metis append_eq_conv_conj)
qed

lemma split_at_first:
  assumes "x \<in> set v"
  shows "\<exists>a b. v = a @ x # b \<and> x \<notin> set a \<and>
     takeWhile (\<lambda>c. c \<noteq> x) v = a \<and> dropWhile (\<lambda>c. c \<noteq> x) v = x # b"
proof -
  from split_list_first [OF assms] obtain a b where v: "v = a @ x # b" and a: "x \<notin> set a"
    by blast
  from a have "takeWhile (\<lambda>c. c \<noteq> x) (a @ x # b) = a"
    by (subst takeWhile_append2) auto
  moreover from a have "dropWhile (\<lambda>c. c \<noteq> x) (a @ x # b) = x # b"
    by (subst dropWhile_append2) auto
  ultimately show ?thesis using v a by blast
qed

lemma slice_to_last:
  assumes "x \<in> set b"
  shows "slice (a @ y # b) (int (length a)) (lastIndexOf x (a @ y # b) + 1) =
           rev (dropWhile (\<lambda>c. c \<noteq> x) (rev (y # b))) \<and>
         int (length a) < lastIndexOf x (a @ y # b)"
proof -
  from assms have inw: "x \<in> set (y # b)" by simp
  have last: "lastIndexOf x (a @ y # b) = int (length a) + lastIndexOf x (y # b)"
    by (rule lastIndexOf_append [OF inw])
  have pos: "0 < lastIndexOf x (y # b)"
    by (rule lastIndexOf_pos [OF assms])
  have "slice (a @ y # b) (int (length a)) (int (length a) + lastIndexOf x (y # b) + 1) =
        take (nat (lastIndexOf x (y # b) + 1)) (y # b)"
    by (simp add: slice_def)
  with take_to_last [OF inw] last pos show ?thesis
    by simp
qed

lemma no_brace_after:
  assumes "x \<notin> set w"
  shows "lastIndexOf x (a @ w) = - 1 \<or> lastIndexOf x (a @ w) < int (length a)"
proof (cases "x \<in> set a")
  case True
  from lastIndexOf_before [OF assms True] show ?thesis by simp
next
  case False
  with assms show ?thesis by (simp add: lastIndexOf_def)
qed

lemma braces_tier:
  "(if indexOf (CHR ''{'') v \<noteq> - 1 \<and> lastIndexOf (CHR ''}'') v \<noteq> - 1 \<and>
       lastIndexOf (CHR ''}'') v > indexOf (CHR ''{'') v
    then Some (slice v (indexOf (CHR ''{'') v) (lastIndexOf (CHR ''}'') v + 1)) else None) = braceSpan v"
proof (cases "CHR ''{'' \<in> set v")
  case False
  then have d: "dropWhile (\<lambda>c. c \<noteq> CHR ''{'') v = []" by (auto simp: dropWhile_eq_Nil_conv)
  have "braceSpan v = None" unfolding braceSpan_def Let_def d by simp
  with False show ?thesis by (simp add: indexOf_def)
next
  case True
  from split_at_first [OF True] obtain a b where
    v: "v = a @ CHR ''{'' # b" and a: "takeWhile (\<lambda>c. c \<noteq> CHR ''{'') v = a"
    and w: "dropWhile (\<lambda>c. c \<noteq> CHR ''{'') v = CHR ''{'' # b"
    by blast
  have first: "indexOf (CHR ''{'') v = int (length a)"
    using True a by (simp add: indexOf_def)
  show ?thesis
  proof (cases "CHR ''}'' \<in> set b")
    case inb: True
    from slice_to_last [OF inb, of a "CHR ''{''"] have
      "slice v (int (length a)) (lastIndexOf (CHR ''}'') v + 1) =
         rev (dropWhile (\<lambda>c. c \<noteq> CHR ''}'') (rev (CHR ''{'' # b)))"
      and "int (length a) < lastIndexOf (CHR ''}'') v"
      unfolding v by blast+
    moreover have "braceSpan v = Some (rev (dropWhile (\<lambda>c. c \<noteq> CHR ''}'') (rev (CHR ''{'' # b))))"
      unfolding braceSpan_def Let_def w using inb by simp
    ultimately show ?thesis
      unfolding first by simp
  next
    case notb: False
    then have notw: "CHR ''}'' \<notin> set (CHR ''{'' # b)" by simp
    have "braceSpan v = None"
      unfolding braceSpan_def Let_def w using notb by simp
    moreover from no_brace_after [OF notw, of a]
    have "lastIndexOf (CHR ''}'') v = - 1 \<or> lastIndexOf (CHR ''}'') v < int (length a)"
      unfolding v .
    ultimately show ?thesis
      unfolding first by auto
  qed
qed


lemma accepted_orNull: "accepted r = truthy (orNull r)"
  by (cases r) (simp_all add: accepted_def orNull_def)

lemma orNull_tierDirect: "orNull (tierDirect parse v) = safeJsonParse parse (trim v)"
  by (simp add: orNull_def tierDirect_def safeJsonParse_def)

lemma orNull_tierFenced:
  "orNull (tierFenced parse v) =
     (case fencedBlock v of
        None \<Rightarrow> JNull
      | Some g \<Rightarrow> if truthyStr g then safeJsonParse parse g else JNull)"
  by (simp add: orNull_def tierFenced_def safeJsonParse_def truthyStr_def split: option.splits)

lemma orNull_tierBraces:
  "orNull (tierBraces parse v) =
     (if indexOf (CHR ''{'') v \<noteq> - 1 \<and> lastIndexOf (CHR ''}'') v \<noteq> - 1 \<and>
         lastIndexOf (CHR ''}'') v > indexOf (CHR ''{'') v
      then safeJsonParse parse (slice v (indexOf (CHR ''{'') v) (lastIndexOf (CHR ''}'') v + 1))
      else JNull)"
  unfolding tierBraces_def braces_tier [symmetric]
  by (simp add: orNull_def safeJsonParse_def)

text \<open>
  C8, as the code has it. \<open>extractJson\<close> goes through the three tiers in order: the direct
  parse of the trimmed text, the parse of the content of the first \<^verbatim>\<open>```json\<close> fenced
  block, the parse of the substring from the first opening to the last closing brace. It
  returns the value of the first of the first two tiers that is truthy, else whatever the
  third tier yields, \<^verbatim>\<open>null\<close> when that yields nothing.
\<close>

theorem extractJson_tiers:
  "extractJson parse v =
     (if accepted (tierDirect parse v) then orNull (tierDirect parse v)
      else if accepted (tierFenced parse v) then orNull (tierFenced parse v)
      else orNull (tierBraces parse v))"
  unfolding accepted_orNull orNull_tierDirect orNull_tierFenced orNull_tierBraces
  by (simp add: extractJson_def Let_def)

text \<open>The claim C8 as stated fails on a text whose fenced block holds the JSON value
  \<open>0\<close>: the second tier yields a parsed result, and the value of the third tier is
  returned.\<close>

theorem extractJson_falsy_tier_counterexample:
  \<open>tierDirect exampleParse (''```json\<newline>0\<newline>``` {"a":1}'') = None \<and>
   tierFenced exampleParse (''```json\<newline>0\<newline>``` {"a":1}'') = Some (JNum 0) \<and>
   extractJsonSpec exampleParse (''```json\<newline>0\<newline>``` {"a":1}'') = JNum 0 \<and>
   extractJson exampleParse (''```json\<newline>0\<newline>``` {"a":1}'') = JObj [(''a'', JNum 1)]\<close>
  by code_simp

section \<open>Properties of the guardrails\<close>

lemma forbiddenHits_iff:
  "forbiddenHits g changedFiles \<noteq> [] \<longleftrightarrow> forbiddenRuleViolated g changedFiles"
  by (auto simp: forbiddenHits_def forbiddenRuleViolated_def forbiddenPatterns_def
        filter_empty_conv list_ex_iff truthyStr_def)

lemma forbiddenHits_no_patterns:
  "forbiddenPatterns g = [] \<Longrightarrow> forbiddenHits g changedFiles = []"
  by (simp add: forbiddenHits_def)

lemma dependencyHits_iff:
  "g_forbidDependencyChanges g = Some True \<and> dependencyHits g changedFiles \<noteq> [] \<longleftrightarrow>
   dependencyRuleViolated g changedFiles"
  by (auto simp: dependencyHits_def dependencyRuleViolated_def filter_empty_conv list_ex_iff)


lemma evaluateGuardrails_enabled:
  assumes "guardrailsEnabled config"
  shows "evaluateGuardrails config changedFiles stats =
           (if filesRuleViolated (policy config) changedFiles
            then [tooManyFiles (length changedFiles) (maxFilesChanged (policy config))] else []) @
           (if addedRuleViolated (policy config) stats
            then [tooManyAdded (ds_added stats) (maxLinesAdded (policy config))] else []) @
           (if removedRuleViolated (policy config) stats
            then [tooManyRemoved (ds_removed stats) (maxLinesRemoved (policy config))] else []) @
           (if forbiddenRuleViolated (policy config) changedFiles
            then [forbiddenChanged (forbiddenHits (policy config) changedFiles)] else []) @
           (if dependencyRuleViolated (policy config) changedFiles
            then [dependencyChanged (dependencyHits (policy config) changedFiles)] else [])"
proof -
  from assms obtain g where g: "cfg_guardrails config = Some g" "g_enabled g = Some True"
    by (auto simp: guardrailsEnabled_def split: option.splits)
  then have p: "policy config = g" by (simp add: policy_def)
  have forb: "(if length (forbiddenPatterns g) > 0
               then (let hit = forbiddenHits g changedFiles
                     in if length hit > 0 then [forbiddenChanged hit] else [])
               else []) =
              (if forbiddenRuleViolated g changedFiles
               then [forbiddenChanged (forbiddenHits g changedFiles)] else [])"
    using forbiddenHits_iff [of g changedFiles] forbiddenHits_no_patterns [of g changedFiles]
    by (auto simp: Let_def)
  have dep: "(if g_forbidDependencyChanges g = Some True
              then (let depHits = dependencyHits g changedFiles
                    in if length depHits > 0 then [dependencyChanged depHits] else [])
              else []) =
             (if dependencyRuleViolated g changedFiles
              then [dependencyChanged (dependencyHits g changedFiles)] else [])"
    using dependencyHits_iff [of g changedFiles]
    by (auto simp: Let_def)
  show ?thesis
    unfolding evaluateGuardrails_def p
    by (simp only: g option.case forb dep filesRuleViolated_def addedRuleViolated_def
          removedRuleViolated_def) simp
qed



section \<open>Properties of worktree acquisition\<close>

lemma putEntry_same: "map_of es k = Some v \<Longrightarrow> putEntry k v es = es"
  by (induction es) (auto split: if_splits)

lemma ensureDir_existing: "lookup fs p = Some (Dir es) \<Longrightarrow> ensureDir fs p = Inr fs"
proof (induction p arbitrary: fs)
  case Nil
  then show ?case by simp
next
  case (Cons x xs)
  show ?case
  proof (cases fs)
    case (File c)
    with Cons.prems show ?thesis by simp
  next
    case (Dir es')
    with Cons.prems obtain n where n: "map_of es' x = Some n" "lookup n xs = Some (Dir es)"
      by (auto split: option.splits)
    from Cons.IH [OF n(2)] n(1) Dir show ?thesis
      by (simp add: putEntry_same)
  qed
qed

text \<open>The native backend guards the destination: when the path exists, the acquisition
  fails with the already-exists error before git is run.\<close>

lemma ensureWorktree_guard:
  "existsSync fs destPath \<Longrightarrow>
     acquire git True rootDir destPath fs =
       Inl (AlreadyExists (''Worktree path already exists: '' @ pathString destPath))"
  by (simp add: acquire_def ensureWorktree_def)

text \<open>The directory copy does not: on a destination that is an existing directory it goes
  on to copy the entries of the source into it.\<close>

lemma copyWorkspace_existing_directory:
  "lookup fs destPath = Some (Dir es) \<Longrightarrow>
     acquire git False rootDir destPath fs =
       (case readdirSync fs rootDir of
          Inl e \<Rightarrow> Inl e
        | Inr entries \<Rightarrow> copyEntries rootDir destPath DEFAULT_EXCLUDES (map fst entries) fs)"
  by (simp add: acquire_def copyWorkspace_def ensureDir_existing)

text \<open>
  C7. The destination \<^verbatim>\<open>/work/.orchestrator/worktrees/run-1/codex\<close> exists. The native
  backend refuses it with the already-exists error. The directory copy, where the claim
  asks for the same error, returns normally with the workspace copied into the
  directory; and acquiring the same destination once more, now a filled worktree,
  returns normally again.
\<close>

theorem copy_backend_reacquires_existing_destination:
  "existsSync exampleFs exampleDest \<and>
   acquire noGit True exampleRoot exampleDest exampleFs =
     Inl (AlreadyExists (''Worktree path already exists: '' @ pathString exampleDest)) \<and>
   acquire noGit False exampleRoot exampleDest exampleFs = Inr exampleFsAfterCopy \<and>
   existsSync exampleFsAfterCopy exampleDest \<and>
   acquire noGit False exampleRoot exampleDest exampleFsAfterCopy = Inr exampleFsAfterCopy"
  by code_simp

section \<open>Properties of the apply step\<close>

lemma lookup_append:
  "lookup fs (p @ q) = (case lookup fs p of None \<Rightarrow> None | Some n \<Rightarrow> lookup n q)"
proof (induction p arbitrary: fs)
  case Nil
  show ?case by simp
next
  case (Cons x xs)
  show ?case
    by (cases fs) (auto simp: Cons.IH split: option.splits)
qed

lemma map_of_putEntry: "map_of (putEntry k v es) k' = (if k' = k then Some v else map_of es k')"
  by (induction es) auto

lemma isWithin_simps [simp]:
  "isWithin p [] = True"
  "isWithin [] (x # xs) = False"
  "isWithin (y # ys) (x # xs) = (x = y \<and> isWithin ys xs)"
  by (auto simp: isWithin_def)

lemma lookup_File_below: "xs \<noteq> [] \<Longrightarrow> lookup (File c) xs = None"
  by (cases xs) simp_all

lemma writeNode_file_frame:
  assumes "lookup fs (butlast p) = Some (Dir es)" and "p \<noteq> []" and "\<not> isDirectory fs p"
  shows "\<exists>fs'. writeNode fs p (File c) = Inr fs' \<and> lookup fs' p = Some (File c) \<and>
               (\<forall>q. \<not> isWithin p q \<longrightarrow> lookup fs' q = lookup fs q)"
  using assms
proof (induction p arbitrary: fs)
  case Nil
  then show ?case by simp
next
  case (Cons y ys)
  show ?case
  proof (cases ys)
    case Nil
    with Cons.prems have fs: "fs = Dir es" by simp
    have old: "lookup (Dir es) (y # xs) = None" if "xs \<noteq> []" for xs
    proof (cases "map_of es y")
      case None
      then show ?thesis by simp
    next
      case (Some d)
      with Cons.prems(3) Nil fs obtain c' where "d = File c'"
        by (cases d) (auto simp: isDirectory_def)
      with Some that show ?thesis by (simp add: lookup_File_below)
    qed
    have frame: "lookup (Dir (putEntry y (File c) es)) q = lookup (Dir es) q"
      if "\<not> isWithin [y] q" for q
    proof (cases q)
      case Nil
      with that show ?thesis by simp
    next
      case (Cons x xs)
      show ?thesis
      proof (cases "x = y")
        case True
        with that Cons have "xs \<noteq> []" by auto
        with True Cons old [OF this] show ?thesis
          by (simp add: map_of_putEntry lookup_File_below)
      next
        case False
        with Cons show ?thesis by (simp add: map_of_putEntry)
      qed
    qed
    from frame show ?thesis
      using Nil fs by (simp add: map_of_putEntry)
  next
    case (Cons z zs)
    with Cons.prems(1) obtain es0 d where
      fs: "fs = Dir es0" and d: "map_of es0 y = Some d"
      and parent: "lookup d (butlast ys) = Some (Dir es)"
      by (cases fs) (auto split: option.splits)
    from Cons.prems(3) fs d have nd: "\<not> isDirectory d ys"
      by (simp add: isDirectory_def)
    from Cons have "ys \<noteq> []" by simp
    from Cons.IH [OF parent this nd] obtain d' where
      w: "writeNode d ys (File c) = Inr d'" and at: "lookup d' ys = Some (File c)"
      and fr: "\<forall>q. \<not> isWithin ys q \<longrightarrow> lookup d' q = lookup d q"
      by blast
    have frame: "lookup (Dir (putEntry y d' es0)) q = lookup (Dir es0) q"
      if "\<not> isWithin (y # ys) q" for q
    proof (cases q)
      case Nil
      with that show ?thesis by simp
    next
      case (Cons x xs)
      with that fr d show ?thesis
        by (cases "x = y") (simp_all add: map_of_putEntry)
    qed
    from frame w at show ?thesis
      using Cons fs d by (simp add: map_of_putEntry)
  qed
qed

lemma writeText_frame:
  assumes "lookup fs (butlast p) = Some (Dir es)" and "p \<noteq> []" and "\<not> isDirectory fs p"
  shows "\<exists>fs'. writeText fs p c = Inr fs' \<and> readText fs' p = Inr (Some c) \<and>
               (\<forall>q. \<not> isWithin p q \<longrightarrow> lookup fs' q = lookup fs q)"
proof -
  from writeNode_file_frame [OF assms, of c] obtain fs' where
    w: "writeNode fs p (File c) = Inr fs'" and at: "lookup fs' p = Some (File c)"
    and fr: "\<forall>q. \<not> isWithin p q \<longrightarrow> lookup fs' q = lookup fs q"
    by blast
  have "writeText fs p c = Inr fs'"
    using assms(3) w
    by (auto simp: writeText_def ensureDir_existing [OF assms(1)] isDirectory_def
          split: option.splits Node.splits)
  with at fr show ?thesis by (auto simp: readText_def)
qed

lemma startsWith_append [simp]: "startsWith (t @ b) t"
  by (simp add: startsWith_def)

lemma includesStr_append: "includesStr (a @ t @ b) t"
proof (induction a)
  case Nil
  show ?case
  proof (cases "t @ b")
    case Nil
    then show ?thesis by simp
  next
    case (Cons x xs)
    have "startsWith (t @ b) t" by (simp add: startsWith_def)
    with Cons show ?thesis by simp
  qed
next
  case (Cons x a)
  then show ?case by simp
qed

lemma blockedLog_marker:
  "startsWith (blockedLog vs) ''Guardrails blocked apply.'' \<and> includesStr (blockedLog vs) ''blocked''"
proof -
  have "blockedLog vs = ''Guardrails blocked apply.'' @
          (''\<newline>\<newline>'' @ joinWith ''\<newline>'' (map (\<lambda>v. ''- '' @ v) vs) @ ''\<newline>'')"
    by (simp add: blockedLog_def)
  moreover have "blockedLog vs = ''Guardrails '' @ ''blocked'' @
          ('' apply.\<newline>\<newline>'' @ joinWith ''\<newline>'' (map (\<lambda>v. ''- '' @ v) vs) @ ''\<newline>'')"
    by (simp add: blockedLog_def)
  ultimately show ?thesis
    using startsWith_append includesStr_append by metis
qed

lemma violations_of_detected_change:
  assumes "guardrailsEnabled config"
      and "g_forbidDependencyChanges (policy config) = Some True"
      and "dependencyChangeDetected rootDir runDir decision isGit config patchText"
  shows "length (finalPatchViolations rootDir runDir decision isGit config patchText) > 0"
proof -
  from assms(2,3) have
    "dependencyRuleViolated (policy config)
       (extractChangedFilesFromDiff patchText (pathString rootDir)
          (pathString (if isGit then rootDir
                       else sourceWorktreePath rootDir runDir decision config)))"
    by (simp add: dependencyRuleViolated_def dependencyChangeDetected_def)
  then show ?thesis
    unfolding finalPatchViolations_def evaluateGuardrails_enabled [OF assms(1)]
    by simp
qed

text \<open>
  What the apply step does once its dependency rule has detected a change. With
  guardrails enabled and dependency protection on, when a file of the dependency list is
  among the changed files read off the final patch, the apply step (which runs in joint
  mode or with a winner) applies nothing: it writes the apply log, which starts with
  \<^verbatim>\<open>Guardrails blocked apply.\<close>, and leaves every path other than the log and the
  directories above it as it was.
\<close>

lemma detected_change_blocks_apply:
  assumes "guardrailsEnabled config"
      and "g_forbidDependencyChanges (policy config) = Some True"
      and "implementationMode config = Joint \<or> winner decision \<noteq> Neither"
      and "readText fs (finalPatchPath runDir) = Inr (Some patchText)"
      and "dependencyChangeDetected rootDir runDir decision isGit config patchText"
      and "\<not> isDirectory fs (applyLogPath runDir)"
  shows "\<exists>fs' log.
           applyWinnerPatch world rootDir runDir decision isGit config fs = Inr fs' \<and>
           readText fs' (applyLogPath runDir) = Inr (Some log) \<and>
           startsWith log ''Guardrails blocked apply.'' \<and> includesStr log ''blocked'' \<and>
           (\<forall>q. \<not> isWithin (applyLogPath runDir) q \<longrightarrow> lookup fs' q = lookup fs q)"
proof -
  let ?vs = "finalPatchViolations rootDir runDir decision isGit config patchText"
  from assms(4) have patchFile:
    "lookup fs (runDir @ [''final''] @ [''final.patch'']) = Some (File patchText)"
    by (auto simp: readText_def finalPatchPath_def split: option.splits Node.splits)
  have "lookup fs (runDir @ [''final''] @ [''final.patch'']) =
          (case lookup fs (runDir @ [''final'']) of None \<Rightarrow> None
           | Some n \<Rightarrow> lookup n [''final.patch''])"
    using lookup_append [of fs "runDir @ [''final'']" "[''final.patch'']"] by simp
  with patchFile obtain n where n: "lookup fs (runDir @ [''final'']) = Some n"
    and below: "lookup n [''final.patch''] = Some (File patchText)"
    by (cases "lookup fs (runDir @ [''final''])") simp_all
  from below obtain es where "n = Dir es"
    by (cases n) simp_all
  with n have parent: "lookup fs (butlast (applyLogPath runDir)) = Some (Dir es)"
    by (simp add: applyLogPath_def butlast_append)
  have ne: "applyLogPath runDir \<noteq> []"
    by (simp add: applyLogPath_def)
  from writeText_frame [OF parent ne assms(6), of "blockedLog ?vs"] obtain fs' where
    w: "writeText fs (applyLogPath runDir) (blockedLog ?vs) = Inr fs'"
    and r: "readText fs' (applyLogPath runDir) = Inr (Some (blockedLog ?vs))"
    and fr: "\<forall>q. \<not> isWithin (applyLogPath runDir) q \<longrightarrow> lookup fs' q = lookup fs q"
    by blast
  from violations_of_detected_change [OF assms(1,2,5)] have pos: "length ?vs > 0" .
  have "applyWinnerPatch world rootDir runDir decision isGit config fs = Inr fs'"
    using assms(1,3,4) pos w
    by (auto simp: applyWinnerPatch_def Let_def)
  with r fr blockedLog_marker [of ?vs] show ?thesis by blast
qed

text \<open>The guardrails test, in the workspace \<^verbatim>\<open>/work\<close>: the change of the manifest is
  detected, the edited manifest is not copied back, and the apply log says that the
  guardrails blocked the apply.\<close>

lemma detected_change_blocks_apply_example:
  "dependencyChangeDetected exampleRoot (exampleRunDir exampleRoot) codexWins False
     guardrailsTestConfig plainPatch \<and>
   (\<exists>fs' log.
      applyWinnerPatch applyExampleWorld exampleRoot (exampleRunDir exampleRoot) codexWins False
        guardrailsTestConfig plainWorkspace = Inr fs' \<and>
      readText fs' (applyLogPath (exampleRunDir exampleRoot)) = Inr (Some log) \<and>
      startsWith log ''Guardrails blocked apply.'' \<and> includesStr log ''blocked'' \<and>
      lookup fs' [''work'', ''package.json''] = Some (File ''{}\<newline>''))"
proof -
  have h1: "guardrailsEnabled guardrailsTestConfig" by code_simp
  have h2: "g_forbidDependencyChanges (policy guardrailsTestConfig) = Some True" by code_simp
  have h3: "implementationMode guardrailsTestConfig = Joint \<or> winner codexWins \<noteq> Neither"
    by code_simp
  have h4: "readText plainWorkspace (finalPatchPath (exampleRunDir exampleRoot)) =
              Inr (Some plainPatch)" by code_simp
  have h5: "dependencyChangeDetected exampleRoot (exampleRunDir exampleRoot) codexWins False
              guardrailsTestConfig plainPatch" by code_simp
  have h6: "\<not> isDirectory plainWorkspace (applyLogPath (exampleRunDir exampleRoot))"
    by code_simp
  have out: "\<not> isWithin (applyLogPath (exampleRunDir exampleRoot)) [''work'', ''package.json'']"
    by code_simp
  have before: "lookup plainWorkspace [''work'', ''package.json''] = Some (File ''{}\<newline>'')"
    by code_simp
  from detected_change_blocks_apply [where world = applyExampleWorld, OF h1 h2 h3 h4 h5 h6]
  obtain fs' log where
    "applyWinnerPatch applyExampleWorld exampleRoot (exampleRunDir exampleRoot) codexWins False
       guardrailsTestConfig plainWorkspace = Inr fs'"
    "readText fs' (applyLogPath (exampleRunDir exampleRoot)) = Inr (Some log)"
    "startsWith log ''Guardrails blocked apply.''" "includesStr log ''blocked''"
    "\<forall>q. \<not> isWithin (applyLogPath (exampleRunDir exampleRoot)) q \<longrightarrow>
         lookup fs' q = lookup plainWorkspace q"
    by blast
  with out before have
    "\<exists>fs' log.
      applyWinnerPatch applyExampleWorld exampleRoot (exampleRunDir exampleRoot) codexWins False
        guardrailsTestConfig plainWorkspace = Inr fs' \<and>
      readText fs' (applyLogPath (exampleRunDir exampleRoot)) = Inr (Some log) \<and>
      startsWith log ''Guardrails blocked apply.'' \<and> includesStr log ''blocked'' \<and>
      lookup fs' [''work'', ''package.json''] = Some (File ''{}\<newline>'')"
    by metis
  with h5 show ?thesis by blast
qed

text \<open>
  C1. The same run in the workspace \<^verbatim>\<open>/my work\<close>. Guardrails are enabled, dependency
  protection is on with \<^verbatim>\<open>package.json\<close> in its list, and the final patch is the diff of
  the manifest, which the driver changed from \<^verbatim>\<open>{}\<close> to \<^verbatim>\<open>{ }\<close>. diff prints the file
  names between double quotes, since they hold a space; the paths read off the patch keep
  the quotation mark, none of them is \<^verbatim>\<open>package.json\<close>, and the guardrails find no
  violation. The apply step then copies the edited manifest over the original and logs a
  synchronisation, where the claim asks for an unchanged manifest and a log that says
  the apply was blocked.
\<close>

theorem guardrails_miss_quoted_file_names:
  "guardrailsEnabled guardrailsTestConfig \<and>
   g_forbidDependencyChanges (policy guardrailsTestConfig) = Some True \<and>
   dependencyFileSet (policy guardrailsTestConfig) = [''package.json''] \<and>
   readText spacedWorkspace (finalPatchPath (exampleRunDir spacedRoot)) = Inr (Some spacedPatch) \<and>
   lookup spacedWorkspace (spacedRoot @ [''package.json'']) = Some (File ''{}\<newline>'') \<and>
   lookup spacedWorkspace (exampleDriverWorktree spacedRoot @ [''package.json'']) =
     Some (File ''{ }\<newline>'') \<and>
   finalPatchViolations spacedRoot (exampleRunDir spacedRoot) codexWins False
     guardrailsTestConfig spacedPatch = [] \<and>
   applyWinnerPatch applyExampleWorld spacedRoot (exampleRunDir spacedRoot) codexWins False
     guardrailsTestConfig spacedWorkspace = Inr spacedWorkspaceSynced \<and>
   lookup spacedWorkspaceSynced (spacedRoot @ [''package.json'']) = Some (File ''{ }\<newline>'') \<and>
   readText spacedWorkspaceSynced (applyLogPath (exampleRunDir spacedRoot)) =
     Inr (Some (syncedLog (exampleDriverWorktree spacedRoot) spacedRoot)) \<and>
   includesStr (syncedLog (exampleDriverWorktree spacedRoot) spacedRoot) ''blocked'' = False"
  by code_simp

text \<open>A binary lock file of the builtin dependency list, in the workspace \<^verbatim>\<open>/work\<close>: the
  patch holds the line \<^verbatim>\<open>Binary files ... differ\<close> and no header, no changed file is read
  off it, and the edited lock file is copied over the original.\<close>

lemma guardrails_miss_binary_lock_file:
  "guardrailsEnabled lockfileTestConfig \<and>
   g_forbidDependencyChanges (policy lockfileTestConfig) = Some True \<and>
   ''bun.lockb'' \<in> set (dependencyFileSet (policy lockfileTestConfig)) \<and>
   extractChangedFilesFromDiff lockfilePatch (pathString exampleRoot)
     (pathString (exampleDriverWorktree exampleRoot)) = [] \<and>
   (case applyWinnerPatch applyExampleWorld exampleRoot (exampleRunDir exampleRoot) codexWins
           False lockfileTestConfig lockfileWorkspace of
      Inl e \<Rightarrow> False
    | Inr fs' \<Rightarrow>
        lookup lockfileWorkspace [''work'', ''bun.lockb''] = Some (File [CHR 0x00, CHR 0x01]) \<and>
        lookup fs' [''work'', ''bun.lockb''] = Some (File [CHR 0x00, CHR 0x02]) \<and>
        readText fs' (applyLogPath (exampleRunDir exampleRoot)) =
          Inr (Some (syncedLog (exampleDriverWorktree exampleRoot) exampleRoot)))"
  by code_simp

section \<open>Properties of the joint implementation loop\<close>

lemma otherAgent_neq: "otherAgent a \<noteq> a"
  by (cases a) (simp_all add: otherAgent_def)

lemma otherAgent_invol: "otherAgent (otherAgent a) = a"
  by (cases a) (simp_all add: otherAgent_def)

lemma otherAgent_of_distinct: "d \<noteq> n \<Longrightarrow> otherAgent n = d"
  by (cases d; cases n) (simp_all add: otherAgent_def)

lemma jointRound_Inr:
  assumes "jointRound config world r st = Inr (st1, stop)"
  shows "\<exists>R. js_history st1 = js_history st @ [R] \<and> jr_round R = r \<and>
             jr_driver R = js_driver st \<and> jr_navigator R = js_navigator st \<and>
             jr_outcome R = roundOutcome config r (jr_navigatorPatch R) (jr_testExit R)
                              (jr_applied R \<or> navigatorPatchEmpty R) \<and>
             stop = roundStops R \<and>
             js_driver st1 = (if roundSwaps R then js_navigator st else js_driver st) \<and>
             js_navigator st1 =
               (if roundSwaps R then otherAgent (js_navigator st) else js_navigator st)"
  using assms
  unfolding jointRound_def
  by (auto simp: bindE_Inr_iff Let_def navigatorPatchEmpty_def roundStops_def roundSwaps_def
           split: prod.splits)

lemma jointLoop_chain:
  "jointLoop config world r st = Inr st' \<Longrightarrow>
   \<exists>new. js_history st' = js_history st @ new \<and>
         jointChain config r (js_driver st) (js_navigator st) new (js_driver st') (js_navigator st')"
proof (induction config world r st rule: jointLoop.induct)
  case (1 config world rnd st)
  show ?case
  proof (cases "rnd \<le> jointMaxRounds config")
    case False
    with "1.prems" have "st' = st"
      by (simp add: jointLoop.simps [of config world rnd st])
    with False show ?thesis by simp
  next
    case True
    with "1.prems" obtain st1 stop where
      step: "jointRound config world rnd st = Inr (st1, stop)"
      and rest: "(if stop then Inr st1 else jointLoop config world (rnd + 1) st1) = Inr st'"
      by (auto simp: jointLoop.simps [of config world rnd st] split: sum.splits prod.splits)
    from jointRound_Inr [OF step] obtain R where
      R: "js_history st1 = js_history st @ [R]" "jr_round R = rnd"
         "jr_driver R = js_driver st" "jr_navigator R = js_navigator st"
         "jr_outcome R = roundOutcome config rnd (jr_navigatorPatch R) (jr_testExit R)
                           (jr_applied R \<or> navigatorPatchEmpty R)"
         "stop = roundStops R"
         "js_driver st1 = (if roundSwaps R then js_navigator st else js_driver st)"
         "js_navigator st1 =
            (if roundSwaps R then otherAgent (js_navigator st) else js_navigator st)"
      by blast
    show ?thesis
    proof (cases stop)
      case True
      with rest have "st' = st1" by simp
      moreover from True R(6) have "\<not> roundSwaps R"
        by (auto simp: roundStops_def roundSwaps_def)
      ultimately show ?thesis
        using R True \<open>rnd \<le> jointMaxRounds config\<close>
        by (intro exI [of _ "[R]"]) simp
    next
      case False
      with rest have loop: "jointLoop config world (rnd + 1) st1 = Inr st'" by simp
      from "1.IH" [OF \<open>rnd \<le> jointMaxRounds config\<close> step refl False loop]
      obtain new where
        new: "js_history st' = js_history st1 @ new"
             "jointChain config (rnd + 1) (js_driver st1) (js_navigator st1) new
                (js_driver st') (js_navigator st')"
        by blast
      show ?thesis
        using R False new \<open>rnd \<le> jointMaxRounds config\<close>
        by (intro exI [of _ "R # new"]) (simp split: if_splits)
    qed
  qed
qed

lemma roundStops_not_swaps: "roundStops R \<Longrightarrow> \<not> roundSwaps R"
  by (auto simp: roundStops_def roundSwaps_def)

lemma jointChain_nth:
  "jointChain config r d n new d' n' \<Longrightarrow> i < length new \<Longrightarrow>
   jr_round (new ! i) = r + int i \<and>
   jr_outcome (new ! i) =
     roundOutcome config (jr_round (new ! i)) (jr_navigatorPatch (new ! i)) (jr_testExit (new ! i))
       (jr_applied (new ! i) \<or> navigatorPatchEmpty (new ! i)) \<and>
   (roundStops (new ! i) \<longrightarrow> Suc i = length new) \<and>
   (if Suc i < length new then (jr_driver (new ! Suc i), jr_navigator (new ! Suc i)) else (d', n')) =
     (if roundSwaps (new ! i) then (jr_navigator (new ! i), otherAgent (jr_navigator (new ! i)))
      else (jr_driver (new ! i), jr_navigator (new ! i)))"
proof (induction new arbitrary: r d n i)
  case Nil
  then show ?case by simp
next
  case (Cons R Rs)
  show ?case
  proof (cases i)
    case 0
    show ?thesis
    proof (cases "roundStops R")
      case True
      with Cons.prems 0 roundStops_not_swaps [OF True] show ?thesis by simp
    next
      case False
      with Cons.prems 0 show ?thesis
        by (cases Rs) (auto split: if_splits)
    qed
  next
    case (Suc j)
    with Cons.prems have j: "j < length Rs" by simp
    then have ne: "Rs \<noteq> []" by auto
    with Cons.prems have
      "jointChain config (r + 1) n (otherAgent n) Rs d' n' \<or> jointChain config (r + 1) d n Rs d' n'"
      by (auto split: if_splits)
    then obtain d2 n2 where ch: "jointChain config (r + 1) d2 n2 Rs d' n'" by blast
    from Cons.IH [OF ch j] show ?thesis using Suc by (auto split: if_splits)
  qed
qed

lemma jointChain_distinct:
  "jointChain config r d n new d' n' \<Longrightarrow> d \<noteq> n \<Longrightarrow>
   d' \<noteq> n' \<and> (\<forall>R \<in> set new. jr_driver R \<noteq> jr_navigator R)"
proof (induction new arbitrary: r d n)
  case Nil
  then show ?case by simp
next
  case (Cons R Rs)
  show ?case
  proof (cases "roundStops R")
    case True
    with Cons.prems show ?thesis by simp
  next
    case False
    show ?thesis
    proof (cases "roundSwaps R")
      case True
      with False Cons.prems have "jointChain config (r + 1) n (otherAgent n) Rs d' n'" by simp
      from Cons.IH [OF this] otherAgent_neq [of n] Cons.prems show ?thesis by auto
    next
      case nsw: False
      with False Cons.prems have "jointChain config (r + 1) d n Rs d' n'" by simp
      from Cons.IH [OF this] Cons.prems show ?thesis by auto
    qed
  qed
qed

lemma jointChain_length:
  "jointChain config r d n new d' n' \<Longrightarrow> int (length new) \<le> max 0 (jointMaxRounds config + 1 - r)"
proof (induction new arbitrary: r d n)
  case Nil
  then show ?case by simp
next
  case (Cons R Rs)
  show ?case
  proof (cases "roundStops R")
    case True
    with Cons.prems show ?thesis by simp
  next
    case False
    with Cons.prems have
      "jointChain config (r + 1) n (otherAgent n) Rs d' n' \<or> jointChain config (r + 1) d n Rs d' n'"
      by (auto split: if_splits)
    then have "int (length Rs) \<le> max 0 (jointMaxRounds config + 1 - (r + 1))"
      using Cons.IH by blast
    moreover from Cons.prems have "r \<le> jointMaxRounds config" by simp
    ultimately show ?thesis by simp
  qed
qed

lemma runJoint_Inr:
  assumes "runImplementationPhaseJoint config decision isGit world = Inr art"
  shows "\<exists>t0 st. w_acquire world = Inr t0 \<and>
           jointLoop config world 1
             \<lparr>js_driver = resolveDriver (impl_driver (implConfig config)) decision,
              js_navigator = otherAgent (resolveDriver (impl_driver (implConfig config)) decision),
              js_lastTestExit = None, js_lastNavigatorNotes = [], js_lastApplyOk = True,
              js_tree = t0, js_history = []\<rparr> = Inr st \<and>
           w_diffBase world (js_tree st) = Inr (ja_finalPatch art) \<and>
           ja_tree art = js_tree st \<and> ja_rounds art = js_history st \<and>
           meta_driver (ja_meta art) = js_driver st \<and>
           meta_navigator (ja_meta art) = js_navigator st \<and>
           meta_rounds (ja_meta art) = jointMaxRounds config \<and>
           meta_diffStats (ja_meta art) = summarizeDiff (ja_finalPatch art)"
  using assms
  unfolding runImplementationPhaseJoint_def Let_def
  by (auto simp: bindE_Inr_iff)

lemma runJoint_chain:
  assumes "runImplementationPhaseJoint config decision isGit world = Inr art"
  shows "jointChain config 1 (resolveDriver (impl_driver (implConfig config)) decision)
           (otherAgent (resolveDriver (impl_driver (implConfig config)) decision))
           (ja_rounds art) (meta_driver (ja_meta art)) (meta_navigator (ja_meta art))"
proof -
  from runJoint_Inr [OF assms] obtain t0 st where
    loop: "jointLoop config world 1
             \<lparr>js_driver = resolveDriver (impl_driver (implConfig config)) decision,
              js_navigator = otherAgent (resolveDriver (impl_driver (implConfig config)) decision),
              js_lastTestExit = None, js_lastNavigatorNotes = [], js_lastApplyOk = True,
              js_tree = t0, js_history = []\<rparr> = Inr st"
    and art: "ja_rounds art = js_history st" "meta_driver (ja_meta art) = js_driver st"
             "meta_navigator (ja_meta art) = js_navigator st"
    by blast
  from jointLoop_chain [OF loop] art show ?thesis by simp
qed


lemma jointExample_run:
  "runImplementationPhaseJoint jointExampleConfig codexWins False jointExampleWorld =
     Inr jointExampleArtifacts"
  by code_simp


lemma jointChain_last:
  "jointChain config r d n new d' n' \<Longrightarrow> new \<noteq> [] \<Longrightarrow>
   (d', n') = (if roundSwaps (last new) then (jr_navigator (last new), otherAgent (jr_navigator (last new)))
               else (jr_driver (last new), jr_navigator (last new))) \<and>
   (\<not> roundStops (last new) \<longrightarrow> jr_round (last new) = jointMaxRounds config)"
proof (induction new arbitrary: r d n)
  case Nil
  then show ?case by simp
next
  case (Cons R Rs)
  show ?case
  proof (cases "roundStops R")
    case True
    with Cons.prems roundStops_not_swaps [OF True] show ?thesis by simp
  next
    case False
    with Cons.prems obtain d2 n2 where
      ch: "jointChain config (r + 1) d2 n2 Rs d' n'"
      and roles: "(d2, n2) = (if roundSwaps R then (jr_navigator R, otherAgent (jr_navigator R))
                              else (jr_driver R, jr_navigator R))"
      by (auto split: if_splits)
    show ?thesis
    proof (cases Rs)
      case Nil
      with ch roles Cons.prems False show ?thesis by (auto split: if_splits)
    next
      case (Cons R2 Rs2)
      with Cons.IH [OF ch] show ?thesis by simp
    qed
  qed
qed

text \<open>
  C9, as the code has it. The final artifact of the joint phase holds the diff of the
  final driver worktree against the base with its statistics, the roles in force after
  the last round that ran, and as \<^verbatim>\<open>rounds\<close> the configured \<^verbatim>\<open>maxRounds\<close>. The number of
  rounds that ran is at most that bound, and equals it when the last round did not stop
  the loop.
\<close>

theorem joint_final_artifact:
  assumes "runImplementationPhaseJoint config decision isGit world = Inr art"
  shows "w_diffBase world (ja_tree art) = Inr (ja_finalPatch art) \<and>
         meta_diffStats (ja_meta art) = summarizeDiff (ja_finalPatch art) \<and>
         (ja_rounds art = [] \<longrightarrow>
            meta_driver (ja_meta art) = resolveDriver (impl_driver (implConfig config)) decision \<and>
            meta_navigator (ja_meta art) = otherAgent (meta_driver (ja_meta art)) \<and>
            jointMaxRounds config \<le> 0) \<and>
         (ja_rounds art \<noteq> [] \<longrightarrow>
            (meta_driver (ja_meta art), meta_navigator (ja_meta art)) =
              (if roundSwaps (last (ja_rounds art))
               then (jr_navigator (last (ja_rounds art)), jr_driver (last (ja_rounds art)))
               else (jr_driver (last (ja_rounds art)), jr_navigator (last (ja_rounds art))))) \<and>
         meta_rounds (ja_meta art) = jointMaxRounds config \<and>
         roundsExecuted art \<le> max 0 (jointMaxRounds config) \<and>
         (ja_rounds art \<noteq> [] \<and> \<not> roundStops (last (ja_rounds art)) \<longrightarrow>
            roundsExecuted art = jointMaxRounds config)"
proof -
  let ?rs = "ja_rounds art"
  note chain = runJoint_chain [OF assms]
  from runJoint_Inr [OF assms] have
    patch: "w_diffBase world (ja_tree art) = Inr (ja_finalPatch art)"
    and stats: "meta_diffStats (ja_meta art) = summarizeDiff (ja_finalPatch art)"
    and rounds: "meta_rounds (ja_meta art) = jointMaxRounds config"
    by auto
  have empty: "meta_driver (ja_meta art) = resolveDriver (impl_driver (implConfig config)) decision \<and>
               meta_navigator (ja_meta art) = otherAgent (meta_driver (ja_meta art)) \<and>
               jointMaxRounds config \<le> 0" if "?rs = []"
    using chain that by simp
  have len: "roundsExecuted art \<le> max 0 (jointMaxRounds config)"
    using jointChain_length [OF chain] by (simp add: roundsExecuted_def)
  have nonempty:
    "(meta_driver (ja_meta art), meta_navigator (ja_meta art)) =
       (if roundSwaps (last ?rs) then (jr_navigator (last ?rs), jr_driver (last ?rs))
        else (jr_driver (last ?rs), jr_navigator (last ?rs))) \<and>
     (\<not> roundStops (last ?rs) \<longrightarrow> roundsExecuted art = jointMaxRounds config)" if ne: "?rs \<noteq> []"
  proof -
    from ne have idx: "length ?rs - 1 < length ?rs" by simp
    have lastR: "last ?rs = ?rs ! (length ?rs - 1)"
      using ne by (simp add: last_conv_nth)
    from jointChain_distinct [OF chain otherAgent_neq [symmetric]] ne
    have "jr_driver (last ?rs) \<noteq> jr_navigator (last ?rs)"
      using last_in_set by blast
    then have oth: "otherAgent (jr_navigator (last ?rs)) = jr_driver (last ?rs)"
      by (rule otherAgent_of_distinct)
    from jointChain_nth [OF chain idx] have "jr_round (last ?rs) = int (length ?rs)"
      using ne lastR by (simp add: of_nat_diff Suc_leI)
    with jointChain_last [OF chain ne] oth show ?thesis
      by (simp add: roundsExecuted_def)
  qed
  from patch stats rounds empty len nonempty show ?thesis by blast
qed

theorem joint_final_artifact_witness:
  "runImplementationPhaseJoint jointExampleConfig codexWins False jointExampleWorld =
     Inr jointExampleArtifacts \<and>
   w_diffBase jointExampleWorld (ja_tree jointExampleArtifacts) =
     Inr (ja_finalPatch jointExampleArtifacts) \<and>
   (meta_driver (ja_meta jointExampleArtifacts), meta_navigator (ja_meta jointExampleArtifacts)) =
     (Claude, Codex) \<and>
   meta_rounds (ja_meta jointExampleArtifacts) = 3 \<and>
   roundsExecuted jointExampleArtifacts \<le> 3"
proof -
  have ne: "ja_rounds jointExampleArtifacts \<noteq> []"
    by code_simp
  have lastR: "\<not> roundSwaps (last (ja_rounds jointExampleArtifacts))"
              "jr_driver (last (ja_rounds jointExampleArtifacts)) = Claude"
              "jr_navigator (last (ja_rounds jointExampleArtifacts)) = Codex"
    by code_simp+
  have bound: "jointMaxRounds jointExampleConfig = 3"
    by code_simp
  from joint_final_artifact [OF jointExample_run] ne lastR bound jointExample_run
  show ?thesis by simp
qed

text \<open>The claim C9 as stated fails: in the example run the loop stops after its second
  round, and \<^verbatim>\<open>meta.json\<close> records three rounds.\<close>

theorem joint_round_count_counterexample:
  "runImplementationPhaseJoint jointExampleConfig codexWins False jointExampleWorld =
     Inr jointExampleArtifacts \<and>
   roundsExecuted jointExampleArtifacts = 2 \<and>
   meta_rounds (ja_meta jointExampleArtifacts) = 3"
proof -
  have "roundsExecuted jointExampleArtifacts = 2" "meta_rounds (ja_meta jointExampleArtifacts) = 3"
    by code_simp+
  with jointExample_run show ?thesis by simp
qed

section \<open>Properties of the debate\<close>


text \<open>
  C3. In debate mode, when the initial outputs of both judges parse to the same winner,
  that winner is the decision at once: no debate round is run, no round directory is
  created, and the rationale refers to the initial judgment.
\<close>

theorem debate_initial_consensus:
  assumes "effectiveMode config overrideMode = Debate"
      and "world 0 Codex = Inr outCodex"
      and "world 0 Claude = Inr outClaude"
      and "optProp (extractJson (rt_parse rt) outCodex) ''winner'' = JStr w"
      and "optProp (extractJson (rt_parse rt) outClaude) ''winner'' = JStr w"
      and "w \<in> winnerNames"
      and "optProp (extractJson (rt_parse rt) outCodex) ''rationale'' = JStr rc"
      and "optProp (extractJson (rt_parse rt) outClaude) ''rationale'' = JStr rk"
  shows "\<exists>res. runDecisionPhase rt config overrideMode world = Inr res \<and>
           winner (dr_decision res) = JStr w \<and>
           dr_roundDirs res = [] \<and>
           dr_calls res = [(0, Codex), (0, Claude)] \<and>
           rationale (dr_decision res) =
             JStr (''Consensus after initial judgment. Codex: '' @ rc @ '' Claude: '' @ rk)"
proof -
  from assms(6) have "w \<noteq> []" by (auto simp: winnerNames_def)
  with assms(4,5) have
    "consensus (extractJson (rt_parse rt) outCodex) (extractJson (rt_parse rt) outClaude)"
    by (simp add: consensus_def)
  then show ?thesis
    using assms(1,2,3,4,7,8)
    by (simp add: runDecisionPhase_def effectiveMode_def Let_def consensusRationale_def
          templ_def debateDecision_def)
qed


theorem debate_initial_consensus_witness:
  "\<exists>res. runDecisionPhase exampleRuntime (debateConfig 3) None agreeingJudges = Inr res \<and>
     winner (dr_decision res) = JStr ''codex'' \<and>
     dr_roundDirs res = [] \<and>
     dr_calls res = [(0, Codex), (0, Claude)] \<and>
     rationale (dr_decision res) =
       JStr (''Consensus after initial judgment. Codex: '' @ ''plan A is smaller'' @
             '' Claude: '' @ ''plan A is smaller'')"
proof -
  have mode: "effectiveMode (debateConfig 3) None = Debate"
    by code_simp
  have o1: "agreeingJudges 0 Codex = Inr codexVote" and o2: "agreeingJudges 0 Claude = Inr codexVote"
    by (simp_all add: agreeingJudges_def)
  have w: "optProp (extractJson (rt_parse exampleRuntime) codexVote) ''winner'' = JStr ''codex''"
    by code_simp
  have r: "optProp (extractJson (rt_parse exampleRuntime) codexVote) ''rationale'' = JStr ''plan A is smaller''"
    by code_simp
  have n: "''codex'' \<in> winnerNames"
    by (simp add: winnerNames_def)
  from debate_initial_consensus
         [where world = agreeingJudges and rt = exampleRuntime, OF mode o1 o2 w w n r r]
  show ?thesis .
qed


section \<open>Properties of the convergence loop\<close>

lemma convergeRound_Inr:
  assumes "convergeRound rt config world r st = Inr (st1, stop)"
  shows "\<exists>R. cs_history st1 = cs_history st @ [R] \<and> cr_round R = r \<and>
             cr_fixer R = cs_fixer st \<and> cr_critic R = cs_critic st \<and>
             reviewOfText rt (cr_criticText R) = Some (cr_review R) \<and>
             cr_complete R = roundConverged R \<and> stop = cr_complete R \<and>
             cs_finalReview st1 = cr_review R \<and>
             cs_fixer st1 =
               (if \<not> cr_complete R \<and> r < convergeMaxRounds config then cs_critic st else cs_fixer st) \<and>
             cs_critic st1 =
               (if \<not> cr_complete R \<and> r < convergeMaxRounds config then otherAgent (cs_critic st)
                else cs_critic st)"
  using assms
  unfolding convergeRound_def
  by (auto simp: bindE_Inr_iff Let_def reviewOfText_def roundConverged_def split: prod.splits)

lemma convergeLoop_chain:
  "convergeLoop rt config world r st = Inr st' \<Longrightarrow>
   \<exists>new. cs_history st' = cs_history st @ new \<and>
         convergeChain rt config r (cs_fixer st) (cs_critic st) (cs_finalReview st) new
           (cs_fixer st') (cs_critic st') (cs_finalReview st')"
proof (induction rt config world r st rule: convergeLoop.induct)
  case (1 rt config world rnd st)
  show ?case
  proof (cases "rnd \<le> convergeMaxRounds config")
    case False
    with "1.prems" have "st' = st"
      by (simp add: convergeLoop.simps [of rt config world rnd st])
    with False show ?thesis by simp
  next
    case True
    with "1.prems" obtain st1 stop where
      step: "convergeRound rt config world rnd st = Inr (st1, stop)"
      and rest: "(if stop then Inr st1 else convergeLoop rt config world (rnd + 1) st1) = Inr st'"
      by (auto simp: convergeLoop.simps [of rt config world rnd st] split: sum.splits prod.splits)
    from convergeRound_Inr [OF step] obtain R where
      R: "cs_history st1 = cs_history st @ [R]" "cr_round R = rnd"
         "cr_fixer R = cs_fixer st" "cr_critic R = cs_critic st"
         "reviewOfText rt (cr_criticText R) = Some (cr_review R)"
         "cr_complete R = roundConverged R" "stop = cr_complete R"
         "cs_finalReview st1 = cr_review R"
         "cs_fixer st1 =
            (if \<not> cr_complete R \<and> rnd < convergeMaxRounds config then cs_critic st else cs_fixer st)"
         "cs_critic st1 =
            (if \<not> cr_complete R \<and> rnd < convergeMaxRounds config then otherAgent (cs_critic st)
             else cs_critic st)"
      by blast
    show ?thesis
    proof (cases stop)
      case True
      with rest have "st' = st1" by simp
      then show ?thesis
        using R True \<open>rnd \<le> convergeMaxRounds config\<close>
        by (intro exI [of _ "[R]"]) simp
    next
      case False
      with rest have loop: "convergeLoop rt config world (rnd + 1) st1 = Inr st'" by simp
      from "1.IH" [OF \<open>rnd \<le> convergeMaxRounds config\<close> step refl False loop]
      obtain new where
        new: "cs_history st' = cs_history st1 @ new"
             "convergeChain rt config (rnd + 1) (cs_fixer st1) (cs_critic st1) (cs_finalReview st1)
                new (cs_fixer st') (cs_critic st') (cs_finalReview st')"
        by blast
      show ?thesis
        using R False new \<open>rnd \<le> convergeMaxRounds config\<close>
        by (intro exI [of _ "R # new"]) (simp split: if_splits)
    qed
  qed
qed




lemma convergeChain_distinct:
  "convergeChain rt config r f c v new f' c' v' \<Longrightarrow> f \<noteq> c \<Longrightarrow>
   f' \<noteq> c' \<and> (\<forall>R \<in> set new. cr_fixer R \<noteq> cr_critic R)"
proof (induction new arbitrary: r f c v)
  case Nil
  then show ?case by simp
next
  case (Cons R Rs)
  show ?case
  proof (cases "cr_complete R")
    case True
    with Cons.prems show ?thesis by simp
  next
    case False
    show ?thesis
    proof (cases "r < convergeMaxRounds config")
      case True
      with False Cons.prems have
        "convergeChain rt config (r + 1) c (otherAgent c) (cr_review R) Rs f' c' v'" by simp
      from Cons.IH [OF this] otherAgent_neq [of c] Cons.prems show ?thesis by auto
    next
      case nlt: False
      with False Cons.prems have
        "convergeChain rt config (r + 1) f c (cr_review R) Rs f' c' v'" by auto
      from Cons.IH [OF this] Cons.prems show ?thesis by auto
    qed
  qed
qed


lemma runConverge_chain:
  assumes "runConvergePhase rt config decision world = Inr (Some art)"
  shows "\<exists>v. convergeChain rt config 1 (initialFixer config decision (cw_metaDriver world))
               (otherAgent (initialFixer config decision (cw_metaDriver world))) v (ca_rounds art)
               (ca_fixer art) (ca_critic art) (ca_final art)"
  using assms
  unfolding runConvergePhase_def Let_def
  by (fastforce simp: bindE_Inr_iff split: if_splits option.splits prod.splits
        dest!: convergeLoop_chain)







section \<open>The two agents of a role pair\<close>

text \<open>
  C10. \<open>otherAgent\<close> is an involution without fixed point. In every round of the joint
  loop, and in the roles the phase ends with, the driver and the navigator are two
  different agents, each the other agent of the other; likewise the fixer and the critic
  of the convergence loop. The rounds after a swap are among them.
\<close>

theorem roles_always_distinct:
  "otherAgent (otherAgent a) = a \<and> otherAgent a \<noteq> a \<and>
   (\<forall>(d, n) \<in> set (jointRoles (runImplementationPhaseJoint config decision isGit jworld)).
      d \<noteq> n \<and> n = otherAgent d \<and> d = otherAgent n) \<and>
   (\<forall>(f, c) \<in> set (convergeRoles (runConvergePhase rt config' decision' cworld)).
      f \<noteq> c \<and> c = otherAgent f \<and> f = otherAgent c)"
proof -
  have pair: "n = otherAgent d \<and> d = otherAgent n" if "d \<noteq> n" for d n
    using that otherAgent_of_distinct [of d n] otherAgent_of_distinct [of n d] by auto
  have joint: "d \<noteq> n"
    if "(d, n) \<in> set (jointRoles (runImplementationPhaseJoint config decision isGit jworld))" for d n
  proof (cases "runImplementationPhaseJoint config decision isGit jworld")
    case (Inl e)
    with that show ?thesis by (simp add: jointRoles_def)
  next
    case (Inr art)
    from jointChain_distinct [OF runJoint_chain [OF Inr] otherAgent_neq [symmetric]] that Inr
    show ?thesis by (auto simp: jointRoles_def)
  qed
  have conv: "f \<noteq> c"
    if "(f, c) \<in> set (convergeRoles (runConvergePhase rt config' decision' cworld))" for f c
  proof (cases "runConvergePhase rt config' decision' cworld")
    case (Inl e)
    with that show ?thesis by (simp add: convergeRoles_def)
  next
    case (Inr r)
    show ?thesis
    proof (cases r)
      case None
      with Inr that show ?thesis by (simp add: convergeRoles_def)
    next
      case (Some art)
      with Inr have run: "runConvergePhase rt config' decision' cworld = Inr (Some art)" by simp
      from runConverge_chain [OF run] obtain v where
        "convergeChain rt config' 1 (initialFixer config' decision' (cw_metaDriver cworld))
           (otherAgent (initialFixer config' decision' (cw_metaDriver cworld))) v (ca_rounds art)
           (ca_fixer art) (ca_critic art) (ca_final art)"
        by blast
      from convergeChain_distinct [OF this otherAgent_neq [symmetric]] that run
      show ?thesis by (auto simp: convergeRoles_def)
    qed
  qed
  from otherAgent_invol otherAgent_neq pair joint conv show ?thesis
    by (simp add: split_beta)
qed

theorem roles_always_distinct_witness:
  "otherAgent (otherAgent Codex) = Codex \<and> otherAgent Codex \<noteq> Codex \<and>
   (Claude, Codex) \<in> set (jointRoles
      (runImplementationPhaseJoint jointExampleConfig codexWins False jointExampleWorld)) \<and>
   Claude \<noteq> Codex \<and> Codex = otherAgent Claude \<and>
   (Claude, Codex) \<in> set (convergeRoles
      (runConvergePhase exampleRuntime (convergeExampleConfig 3) codexWins stubbornCriticWorld)) \<and>
   Claude = otherAgent Codex"
proof -
  have j: "(Claude, Codex) \<in> set (jointRoles
      (runImplementationPhaseJoint jointExampleConfig codexWins False jointExampleWorld))"
    by code_simp
  have c: "(Claude, Codex) \<in> set (convergeRoles
      (runConvergePhase exampleRuntime (convergeExampleConfig 3) codexWins stubbornCriticWorld))"
    by code_simp
  from roles_always_distinct
         [where a = Codex and config = jointExampleConfig and decision = codexWins
            and isGit = False and jworld = jointExampleWorld and rt = exampleRuntime
            and config' = "convergeExampleConfig 3" and decision' = codexWins
            and cworld = stubbornCriticWorld]
       j c
  show ?thesis by auto
qed

end
